theory Spec2Isabelle
  imports Main "HOL-Library.Word"
begin

section \<open>Shared vocabulary\<close>

text \<open>
  The errors the two packages hand around. Go compares the sentinel errors
  \<open>ErrTaskRetry\<close> and \<open>ErrTaskDiscarded\<close> by identity, so each is a constructor
  of its own. \<open>Panic\<close> stands for a Go run-time panic (index out of range, failed type
  assertion, nil dereference) and \<open>Fatal\<close> for a \<open>logger.Fatal\<close> call, which ends the
  process. Every other error value is \<open>OtherError\<close> with a tag.
\<close>

datatype error =
    ErrTaskRetry
  | ErrTaskDiscarded
  | errUnknownTransferTask
  | errUnexpectedQueueTask
  | EntityNotExistsError
  | Panic
  | Fatal
  | OtherError string

text \<open>The thrift enum \<open>VisibilityMsgType\<close> and struct \<open>VisibilityMsg\<close> of indexer.thrift;
  every field of the struct is optional.\<close>

datatype VisibilityMsgType = Open | Closed | Delete

fun VisibilityMsgType_String :: "VisibilityMsgType \<Rightarrow> string" where
  "VisibilityMsgType_String Open = ''Open''"
| "VisibilityMsgType_String Closed = ''Closed''"
| "VisibilityMsgType_String Delete = ''Delete''"

text \<open>\<open>shared.WorkflowExecutionCloseStatus\<close>, an enum of the shared thrift file.\<close>

datatype WorkflowExecutionCloseStatus =
  COMPLETED | FAILED | CANCELED | TERMINATED | CONTINUED_AS_NEW | TIMED_OUT

record VisibilityMsg =
  msgType :: "VisibilityMsgType option"
  domainID :: "string option"
  workflowID :: "string option"
  runID :: "string option"
  workflowType :: "string option"
  startTime :: "int option"
  closeTime :: "int option"
  closeStatus :: "WorkflowExecutionCloseStatus option"
  historyLength :: "int option"

text \<open>The zero value of the struct (\<open>var doc indexer.VisibilityMsg\<close>).\<close>

definition zeroVisibilityMsg :: VisibilityMsg where
  "zeroVisibilityMsg = \<lparr>msgType = None, domainID = None, workflowID = None, runID = None,
     workflowType = None, startTime = None, closeTime = None, closeStatus = None,
     historyLength = None\<rparr>"

section \<open>The Elasticsearch bulk processor (package indexer, esProcessorImpl)\<close>

subsection \<open>Data\<close>

text \<open>
  A bus message is known by its handle. The in-flight map stores \<open>interface{}\<close> values:
  \<open>KafkaMessage h\<close> is a value that passes the assertion \<open>msg.(messaging.Message)\<close>,
  \<open>NotKafkaMessage\<close> one that does not.
\<close>

type_synonym handle = nat

datatype mapValue = KafkaMessage handle | NotKafkaMessage

text \<open>
  A bulk request is either the index request that \<open>getESRequest\<close> builds with
  \<open>elastic.NewBulkIndexRequest().Index(..).Type(..).Id(..).VersionType(..).Version(..).Doc(..)\<close>
  or any other request of the elastic client, known by a tag.
\<close>

datatype BulkableRequest =
    BulkIndexRequest (reqIndex: string) (reqType: string) (reqId: string)
      (reqVersionType: string) (reqVersion: int) (reqDoc: VisibilityMsg)
  | OtherBulkRequest nat

text \<open>
  A decoded JSON value as Go stores it in an \<open>interface{}\<close>: a string, a number, or
  anything else (nil, bool, object, array). Header versions are written from int64 values,
  so numbers are kept integral and \<open>int64(float64)\<close> is the identity on them.
\<close>

datatype jsonValue = JString string | JNumber int | JOtherValue

text \<open>
  \<open>map[string]map[string]interface{}\<close>: the entries of the outer map are listed in the
  order in which a \<open>range\<close> loop visits them; a header of the bulk framing has one entry.
\<close>

type_synonym reqHead = "(string \<times> (string \<rightharpoonup> jsonValue)) list"

text \<open>
  What the code takes from its libraries and from declarations outside the given files:
  \<open>Source\<close> is \<open>request.Source()\<close> of the elastic client (\<open>None\<close> when it returns an error),
  \<open>unmarshalHead\<close> and \<open>unmarshalDoc\<close> are \<open>json.Unmarshal\<close> into a
  \<open>map[string]map[string]interface{}\<close> and into a \<open>VisibilityMsg\<close> (\<open>None\<close> when it returns
  an error), and \<open>versionForOpen\<close>, \<open>versionForClose\<close>, \<open>versionForDelete\<close> are the
  package constants of that name.
\<close>

record esLib =
  Source :: "BulkableRequest \<Rightarrow> string list option"
  unmarshalHead :: "string \<Rightarrow> reqHead option"
  unmarshalDoc :: "string \<Rightarrow> VisibilityMsg option"
  versionForOpen :: int
  versionForClose :: int
  versionForDelete :: int

text \<open>
  The processor's state. \<open>mapToKafkaMsg\<close> is the in-flight map; \<open>acked\<close> lists the
  handles on which \<open>Ack()\<close> was called, \<open>submitted\<close> the requests passed to
  \<open>p.processor.Add\<close>, both in call order; the two counters are the metrics
  \<open>ESProcessorCorruptedData\<close> and \<open>ESProcessorFailures\<close>. Log lines are not kept.
\<close>

record esProcessorImpl =
  mapToKafkaMsg :: "string \<rightharpoonup> mapValue"
  acked :: "handle list"
  submitted :: "BulkableRequest list"
  corruptedData :: nat
  failures :: nat

text \<open>Modelled from the spec: the sharded concurrent map of section 4.1 (package
  collection, not among the given files), used by one caller at a time: \<open>Contains\<close>,
  \<open>Get\<close>, \<open>Put\<close> and \<open>Remove\<close> of a keyed mapping.\<close>

definition map_Contains :: "(string \<rightharpoonup> mapValue) \<Rightarrow> string \<Rightarrow> bool" where
  "map_Contains m key = (m key \<noteq> None)"

definition map_Get :: "(string \<rightharpoonup> mapValue) \<Rightarrow> string \<Rightarrow> mapValue option" where
  "map_Get m key = m key"

definition map_Put :: "(string \<rightharpoonup> mapValue) \<Rightarrow> string \<Rightarrow> mapValue \<Rightarrow> (string \<rightharpoonup> mapValue)" where
  "map_Put m key v = m(key \<mapsto> v)"

definition map_Remove :: "(string \<rightharpoonup> mapValue) \<Rightarrow> string \<Rightarrow> (string \<rightharpoonup> mapValue)" where
  "map_Remove m key = m(key := None)"

subsection \<open>Add\<close>

definition Add :: "BulkableRequest \<Rightarrow> string \<Rightarrow> handle \<Rightarrow> esProcessorImpl \<Rightarrow> esProcessorImpl" where
  "Add request key kafkaMsg p =
     (if map_Contains (mapToKafkaMsg p) key
      then p\<lparr>acked := acked p @ [kafkaMsg]\<rparr>
      else p\<lparr>mapToKafkaMsg := map_Put (mapToKafkaMsg p) key (KafkaMessage kafkaMsg),
             submitted := submitted p @ [request]\<rparr>)"

subsection \<open>ackKafkaMsg\<close>

definition ackKafkaMsg :: "string \<Rightarrow> esProcessorImpl \<Rightarrow> error + esProcessorImpl" where
  "ackKafkaMsg key p =
     (case map_Get (mapToKafkaMsg p) key of
        None \<Rightarrow> Inr p
      | Some NotKafkaMessage \<Rightarrow> Inl Fatal
      | Some (KafkaMessage kafkaMsg) \<Rightarrow>
          Inr (p\<lparr>acked := acked p @ [kafkaMsg],
                 mapToKafkaMsg := map_Remove (mapToKafkaMsg p) key\<rparr>))"

subsection \<open>getESRequest\<close>

text \<open>A type assertion \<open>m[k].(string)\<close> or \<open>m[k].(float64)\<close> without the comma-ok form
  panics when the key is missing (the map gives a nil interface) or holds another type.\<close>

definition assertString :: "(string \<rightharpoonup> jsonValue) \<Rightarrow> string \<Rightarrow> error + string" where
  "assertString m k = (case m k of Some (JString s) \<Rightarrow> Inr s | _ \<Rightarrow> Inl Panic)"

definition assertFloat64 :: "(string \<rightharpoonup> jsonValue) \<Rightarrow> string \<Rightarrow> error + int" where
  "assertFloat64 m k = (case m k of Some (JNumber n) \<Rightarrow> Inr n | _ \<Rightarrow> Inl Panic)"

text \<open>The five local variables \<open>index, id, typ, version, versionType\<close> that the
  \<open>range\<close> loop of \<open>getESRequest\<close> assigns.\<close>

record headFields =
  hf_index :: string
  hf_id :: string
  hf_typ :: string
  hf_version :: int
  hf_versionType :: string

definition zeroHeadFields :: headFields where
  "zeroHeadFields = \<lparr>hf_index = [], hf_id = [], hf_typ = [], hf_version = 0, hf_versionType = []\<rparr>"

text \<open>One pass of the loop body, in the order of the five assignments.\<close>

definition assignHeadFields :: "(string \<rightharpoonup> jsonValue) \<Rightarrow> error + headFields" where
  "assignHeadFields m =
     (case assertString m ''_index'' of Inl e \<Rightarrow> Inl e | Inr index \<Rightarrow>
     (case assertString m ''_id'' of Inl e \<Rightarrow> Inl e | Inr docID \<Rightarrow>
     (case assertString m ''_type'' of Inl e \<Rightarrow> Inl e | Inr typ \<Rightarrow>
     (case assertFloat64 m ''version'' of Inl e \<Rightarrow> Inl e | Inr version \<Rightarrow>
     (case assertString m ''version_type'' of Inl e \<Rightarrow> Inl e | Inr versionType \<Rightarrow>
        Inr \<lparr>hf_index = index, hf_id = docID, hf_typ = typ, hf_version = version,
             hf_versionType = versionType\<rparr>)))))"

fun rangeHeadFields :: "reqHead \<Rightarrow> headFields \<Rightarrow> error + headFields" where
  "rangeHeadFields [] acc = Inr acc"
| "rangeHeadFields ((k, m) # rest) acc =
     (case assignHeadFields m of Inl e \<Rightarrow> Inl e | Inr f \<Rightarrow> rangeHeadFields rest f)"

fun getReqType :: "reqHead \<Rightarrow> string" where
  "getReqType [] = []"
| "getReqType ((k, m) # rest) = k"

definition esRequestTypeIndex :: string where "esRequestTypeIndex = ''index''"
definition esRequestTypeUpdate :: string where "esRequestTypeUpdate = ''update''"
definition esRequestTypeDelete :: string where "esRequestTypeDelete = ''delete''"

text \<open>
  \<open>getESRequest\<close> returns the rebuilt request, or \<open>None\<close> for Go's nil, together with
  the processor (the corrupted-data counter may have moved). \<open>input[0]\<close> panics on an
  empty slice. The body is decoded only when there are exactly two lines. The
  \<open>switch\<close> has a case for the index operation, an empty case for the delete operation
  and no default, so every operation but index falls through to \<open>return nil\<close>.
\<close>

definition getESRequest ::
  "esLib \<Rightarrow> string list \<Rightarrow> esProcessorImpl \<Rightarrow> error + (BulkableRequest option \<times> esProcessorImpl)" where
  "getESRequest lib input p =
     (case input of
        [] \<Rightarrow> Inl Panic
      | line0 # _ \<Rightarrow>
         (case unmarshalHead lib line0 of
            None \<Rightarrow> Inr (None, p\<lparr>corruptedData := corruptedData p + 1\<rparr>)
          | Some reqHead \<Rightarrow>
             (case rangeHeadFields reqHead zeroHeadFields of
                Inl e \<Rightarrow> Inl e
              | Inr f \<Rightarrow>
                 (case (if length input = 2 then unmarshalDoc lib (input ! 1)
                        else Some zeroVisibilityMsg) of
                    None \<Rightarrow> Inr (None, p)
                  | Some doc \<Rightarrow>
                     (if getReqType reqHead = esRequestTypeIndex
                      then Inr (Some (BulkIndexRequest (hf_index f) (hf_typ f) (hf_id f)
                                        (hf_versionType f) (hf_version f) doc), p)
                      else if getReqType reqHead = esRequestTypeDelete
                      then Inr (None, p)
                      else Inr (None, p))))))"

definition convertESVersionToVisibilityMsgType :: "esLib \<Rightarrow> int \<Rightarrow> string" where
  "convertESVersionToVisibilityMsgType lib version =
     (if version = versionForOpen lib then VisibilityMsgType_String Open
      else if version = versionForClose lib then VisibilityMsgType_String Closed
      else if version = versionForDelete lib then VisibilityMsgType_String Delete
      else [])"

subsection \<open>bulkAfterAction\<close>

text \<open>One entry of \<open>response.Items\<close> is a \<open>map[string]*BulkResponseItem\<close>, listed in
  \<open>range\<close> order; of an item the code reads \<open>Id\<close> and \<open>Status\<close>.\<close>

record BulkResponseItem =
  ItemId :: string
  Status :: int

type_synonym BulkResponse = "(string \<times> BulkResponseItem) list list"

text \<open>A \<open>for\<close> loop over a slice whose body may end the process.\<close>

fun forEach :: "('a \<Rightarrow> 's \<Rightarrow> error + 's) \<Rightarrow> 'a list \<Rightarrow> 's \<Rightarrow> error + 's" where
  "forEach body [] s = Inr s"
| "forEach body (x # xs) s =
     (case body x s of Inl e \<Rightarrow> Inl e | Inr s' \<Rightarrow> forEach body xs s')"

text \<open>\<open>if r := p.getESRequest(req); r != nil { p.processor.Add(r) }\<close>\<close>

definition resubmit :: "esLib \<Rightarrow> string list \<Rightarrow> esProcessorImpl \<Rightarrow> error + esProcessorImpl" where
  "resubmit lib req p =
     (case getESRequest lib req p of
        Inl e \<Rightarrow> Inl e
      | Inr (None, p') \<Rightarrow> Inr p'
      | Inr (Some r, p') \<Rightarrow> Inr (p'\<lparr>submitted := submitted p' @ [r]\<rparr>))"

text \<open>The body of the loop over the requests when the flush itself failed.\<close>

definition retryRequest :: "esLib \<Rightarrow> BulkableRequest \<Rightarrow> esProcessorImpl \<Rightarrow> error + esProcessorImpl" where
  "retryRequest lib request p =
     (case Source lib request of
        None \<Rightarrow> Inr (p\<lparr>corruptedData := corruptedData p + 1\<rparr>)
      | Some req \<Rightarrow> resubmit lib req p)"

text \<open>\<open>for _, header := range reqHead { head = convert(header["version"].(float64)) }\<close>\<close>

fun rangeHead :: "esLib \<Rightarrow> reqHead \<Rightarrow> string \<Rightarrow> error + string" where
  "rangeHead lib [] head = Inr head"
| "rangeHead lib ((k, header) # rest) head =
     (case assertFloat64 header ''version'' of
        Inl e \<Rightarrow> Inl e
      | Inr version \<Rightarrow> rangeHead lib rest (convertESVersionToVisibilityMsgType lib version))"

text \<open>The body of \<open>for _, res := range responseItem\<close>.\<close>

definition reconcile ::
  "esLib \<Rightarrow> string list \<Rightarrow> string \<Rightarrow> (string \<times> BulkResponseItem) \<Rightarrow> esProcessorImpl
     \<Rightarrow> error + esProcessorImpl" where
  "reconcile lib req head entry p =
     (let res = snd entry; key = ItemId res @ head in
      if Status res \<ge> 200 \<and> Status res < 300 then ackKafkaMsg key p
      else if Status res = 409 then ackKafkaMsg key p
      else resubmit lib req p)"

text \<open>The body of \<open>for i := 0; i < len(requests); i++\<close> when the flush succeeded.
  \<open>req[0]\<close> and \<open>responseItems[i]\<close> panic when out of range.\<close>

definition afterItem ::
  "esLib \<Rightarrow> BulkableRequest list \<Rightarrow> BulkResponse \<Rightarrow> nat \<Rightarrow> esProcessorImpl
     \<Rightarrow> error + esProcessorImpl" where
  "afterItem lib requests responseItems i p =
     (case Source lib (requests ! i) of
        None \<Rightarrow> Inr (p\<lparr>corruptedData := corruptedData p + 1\<rparr>)
      | Some req \<Rightarrow>
         (case req of
            [] \<Rightarrow> Inl Panic
          | line0 # _ \<Rightarrow>
             (case unmarshalHead lib line0 of
                None \<Rightarrow> Inr (p\<lparr>corruptedData := corruptedData p + 1\<rparr>)
              | Some reqHead \<Rightarrow>
                 (case rangeHead lib reqHead [] of
                    Inl e \<Rightarrow> Inl e
                  | Inr head \<Rightarrow>
                     (if i < length responseItems
                      then forEach (reconcile lib req head) (responseItems ! i) p
                      else Inl Panic)))))"

text \<open>
  \<open>bulkAfterAction\<close>. \<open>response\<close> is a pointer (\<open>None\<close> for nil, whose \<open>Items\<close> cannot be
  read) and \<open>err\<close> the flush error. The sleep of the failure path changes nothing here.
  \<open>afterItem\<close> is applied to the indices below \<open>len(requests)\<close> only.
\<close>

definition bulkAfterAction ::
  "esLib \<Rightarrow> int \<Rightarrow> BulkableRequest list \<Rightarrow> BulkResponse option \<Rightarrow> error option
     \<Rightarrow> esProcessorImpl \<Rightarrow> error + esProcessorImpl" where
  "bulkAfterAction lib bulkId requests response err p =
     (case err of
        Some e \<Rightarrow> forEach (retryRequest lib) requests (p\<lparr>failures := failures p + 1\<rparr>)
      | None \<Rightarrow>
         (case response of
            None \<Rightarrow> Inl Panic
          | Some responseItems \<Rightarrow>
              forEach (afterItem lib requests responseItems) [0..<length requests] p))"

section \<open>The standby transfer queue processor (package history)\<close>

subsection \<open>Data\<close>

text \<open>
  Identifiers, versions and timeouts are int64 and int32 values that the code only
  compares, copies and takes minima of; they are integers here. Instants of
  \<open>time.Time\<close> are nanosecond counts. The one multiplication of the package, the
  retention in seconds, is done on machine words.
\<close>

record WorkflowExecution =
  WorkflowId :: string
  RunId :: string

datatype TransferTaskType =
    TransferTaskTypeActivityTask
  | TransferTaskTypeDecisionTask
  | TransferTaskTypeCloseExecution
  | TransferTaskTypeCancelExecution
  | TransferTaskTypeSignalExecution
  | TransferTaskTypeStartChildExecution
  | TransferTaskTypeOther int

record TransferTaskInfo =
  DomainID :: string
  WorkflowID :: string
  RunID :: string
  TaskID :: int
  TaskType :: TransferTaskType
  TargetDomainID :: string
  TaskList :: string
  ScheduleID :: int
  Version :: int
  VisibilityTimestamp :: int

text \<open>A queue task is a transfer task or something else, on which the assertion
  \<open>qTask.(*persistence.TransferTaskInfo)\<close> fails.\<close>

datatype queueTaskInfo = TransferTask TransferTaskInfo | OtherQueueTask

text \<open>What the handlers read of the infos that mutable state returns.\<close>

record ActivityInfo =
  ai_Version :: int
  ai_StartedID :: int
  ai_ScheduleToStartTimeout :: int

record DecisionInfo =
  di_Version :: int
  di_StartedID :: int

record RequestCancelInfo =
  rci_Version :: int

record SignalInfo =
  si_Version :: int

record ChildExecutionInfo =
  ci_Version :: int
  ci_StartedID :: int

record WorkflowExecutionInfo =
  ei_WorkflowTypeName :: string
  ei_WorkflowTimeout :: int
  ei_StartTimestamp :: int
  ei_CloseStatus :: int
  ei_NextEventID :: int

text \<open>
  The interface \<open>mutableState\<close>, by the results of the methods the handlers call. A
  getter that returns \<open>(info, isPending)\<close> is a partial map on the schedule id.
\<close>

record mutableState =
  IsWorkflowExecutionRunning :: bool
  GetExecutionInfo :: WorkflowExecutionInfo
  GetLastUpdatedTimestamp :: int
  GetLastWriteVersion :: int
  GetNextEventID :: int
  GetActivityInfo :: "int \<rightharpoonup> ActivityInfo"
  GetPendingDecision :: "int \<rightharpoonup> DecisionInfo"
  GetRequestCancelInfo :: "int \<rightharpoonup> RequestCancelInfo"
  GetSignalInfo :: "int \<rightharpoonup> SignalInfo"
  GetChildExecutionInfo :: "int \<rightharpoonup> ChildExecutionInfo"

text \<open>A domain cache entry, by the results of the methods called on it;
  \<open>GetRetentionDays\<close> returns an int32.\<close>

record domainCacheEntry =
  GetInfoName :: string
  GetRetentionDays :: "string \<Rightarrow> 32 word"
  IsSampledForLongerRetentionEnabled :: "string \<Rightarrow> bool"
  IsSampledForLongerRetention :: "string \<Rightarrow> bool"

record AddActivityTaskRequest =
  aat_DomainUUID :: string
  aat_SourceDomainUUID :: string
  aat_Execution :: WorkflowExecution
  aat_TaskList :: string
  aat_ScheduleId :: int
  aat_ScheduleToStartTimeoutSeconds :: int

record AddDecisionTaskRequest =
  adt_DomainUUID :: string
  adt_Execution :: WorkflowExecution
  adt_TaskList :: string
  adt_ScheduleId :: int
  adt_ScheduleToStartTimeoutSeconds :: int

record RecordWorkflowExecutionStartedRequest =
  rws_DomainUUID :: string
  rws_Domain :: string
  rws_Execution :: WorkflowExecution
  rws_WorkflowTypeName :: string
  rws_StartTimestamp :: int
  rws_WorkflowTimeout :: int

record RecordWorkflowExecutionClosedRequest =
  rwc_DomainUUID :: string
  rwc_Domain :: string
  rwc_Execution :: WorkflowExecution
  rwc_WorkflowTypeName :: string
  rwc_StartTimestamp :: int
  rwc_CloseTimestamp :: int
  rwc_Status :: WorkflowExecutionCloseStatus
  rwc_HistoryLength :: int
  rwc_RetentionSeconds :: "64 word"

datatype workflowExecutionContext = WorkflowExecutionContext nat

text \<open>
  The calls a handler makes on its collaborators, in order: \<open>Released e\<close> is a call
  \<open>release(e)\<close> of the function returned by the history cache, \<open>Published\<close> a call of
  \<open>visibilityProducer.Publish\<close>, \<open>RecordedStarted\<close> and \<open>RecordedClosed\<close> the two calls
  on the visibility manager, \<open>PushedActivity\<close> and \<open>PushedDecision\<close> the two calls on
  the matching client.
\<close>

datatype effect =
    Released "error option"
  | Published VisibilityMsg
  | RecordedStarted RecordWorkflowExecutionStartedRequest
  | RecordedClosed RecordWorkflowExecutionClosedRequest
  | PushedActivity AddActivityTaskRequest
  | PushedDecision AddDecisionTaskRequest

text \<open>
  The shard, the caches and the clients, by what they answer; \<open>None\<close> is a nil error.
  \<open>verifyTaskVersion\<close>, \<open>loadMutableStateForTransferTask\<close>,
  \<open>getWorkflowExecutionCloseStatus\<close> and the task allocator's \<open>verifyStandbyTask\<close> are
  functions of the package outside the given files, and \<open>EmptyEventID\<close>,
  \<open>FirstEventID\<close> and \<open>MaxTaskTimeout\<close> constants of package common: all are taken as
  given. \<open>visibilityProducer\<close> is \<open>None\<close> when no producer is configured.
\<close>

record historyEnv =
  clusterName :: string
  GetCurrentTime :: "string \<Rightarrow> int"
  StandbyClusterDelay :: int
  GetDomainByID :: "string \<Rightarrow> error + domainCacheEntry"
  getOrCreateWorkflowExecution :: "string \<Rightarrow> WorkflowExecution \<Rightarrow> error + workflowExecutionContext"
  loadMutableStateForTransferTask ::
    "workflowExecutionContext \<Rightarrow> TransferTaskInfo \<Rightarrow> error + mutableState option"
  verifyTaskVersion :: "string \<Rightarrow> int \<Rightarrow> int \<Rightarrow> TransferTaskInfo \<Rightarrow> bool \<times> error option"
  verifyStandbyTask :: "string \<Rightarrow> string \<Rightarrow> TransferTaskInfo \<Rightarrow> bool \<times> error option"
  getWorkflowExecutionCloseStatus :: "int \<Rightarrow> WorkflowExecutionCloseStatus"
  visibilityProducer :: "(VisibilityMsg \<Rightarrow> error option) option"
  RecordWorkflowExecutionStarted :: "RecordWorkflowExecutionStartedRequest \<Rightarrow> error option"
  RecordWorkflowExecutionClosed :: "RecordWorkflowExecutionClosedRequest \<Rightarrow> error option"
  AddActivityTask :: "AddActivityTaskRequest \<Rightarrow> error option"
  AddDecisionTask :: "AddDecisionTaskRequest \<Rightarrow> error option"
  EmptyEventID :: int
  FirstEventID :: int
  MaxTaskTimeout :: int

text \<open>\<open>time.Time.Sub\<close>: the difference as a \<open>Duration\<close> (an int64 of nanoseconds), the
  largest or smallest duration when the difference does not fit.\<close>

definition maxDuration :: int where "maxDuration = 2 ^ 63 - 1"
definition minDuration :: int where "minDuration = - (2 ^ 63)"

definition time_Sub :: "int \<Rightarrow> int \<Rightarrow> int" where
  "time_Sub t u =
     (if t - u > maxDuration then maxDuration
      else if t - u < minDuration then minDuration
      else t - u)"

definition MinInt32 :: "int \<Rightarrow> int \<Rightarrow> int" where
  "MinInt32 a b = (if a < b then a else b)"

definition defaultDomainName :: string where
  "defaultDomainName = ''defaultDomainName''"

text \<open>Modelled from the spec: the constant \<open>secondsInDay\<close> (an int32 declared outside the
  given files); section 4.3 gives the retention as the days times 86400.\<close>

definition secondsInDay :: "32 word" where
  "secondsInDay = 86400"

subsection \<open>transferQueueProcessorBase\<close>

text \<open>A function of the package returns its error (\<open>None\<close> for nil) and the calls it
  made on the collaborators.\<close>

type_synonym outcome = "error option \<times> effect list"

definition pushActivity :: "historyEnv \<Rightarrow> TransferTaskInfo \<Rightarrow> int \<Rightarrow> outcome" where
  "pushActivity env task activityScheduleToStartTimeout =
     (if TaskType task \<noteq> TransferTaskTypeActivityTask then (Some Fatal, [])
      else
        (let req = \<lparr>aat_DomainUUID = TargetDomainID task,
                    aat_SourceDomainUUID = DomainID task,
                    aat_Execution = \<lparr>WorkflowId = WorkflowID task, RunId = RunID task\<rparr>,
                    aat_TaskList = TaskList task,
                    aat_ScheduleId = ScheduleID task,
                    aat_ScheduleToStartTimeoutSeconds = activityScheduleToStartTimeout\<rparr>
         in (AddActivityTask env req, [PushedActivity req])))"

definition pushDecision :: "historyEnv \<Rightarrow> TransferTaskInfo \<Rightarrow> string \<Rightarrow> int \<Rightarrow> outcome" where
  "pushDecision env task tasklist decisionScheduleToStartTimeout =
     (if TaskType task \<noteq> TransferTaskTypeDecisionTask then (Some Fatal, [])
      else
        (let req = \<lparr>adt_DomainUUID = DomainID task,
                    adt_Execution = \<lparr>WorkflowId = WorkflowID task, RunId = RunID task\<rparr>,
                    adt_TaskList = tasklist,
                    adt_ScheduleId = ScheduleID task,
                    adt_ScheduleToStartTimeoutSeconds = decisionScheduleToStartTimeout\<rparr>
         in (AddDecisionTask env req, [PushedDecision req])))"

text \<open>The part of \<open>recordWorkflowStarted\<close> from the comment \<open>publish to kafka\<close> on.\<close>

definition publishAndRecordStarted ::
  "historyEnv \<Rightarrow> string \<Rightarrow> string \<Rightarrow> WorkflowExecution \<Rightarrow> string \<Rightarrow> int \<Rightarrow> int \<Rightarrow> outcome" where
  "publishAndRecordStarted env domain domainId execution workflowTypeName startTimeUnixNano
       workflowTimeout =
     (let msg = \<lparr>msgType = Some Open,
                 domainID = Some domainId,
                 workflowID = Some (WorkflowId execution),
                 runID = Some (RunId execution),
                 workflowType = Some workflowTypeName,
                 startTime = Some startTimeUnixNano,
                 closeTime = None, closeStatus = None, historyLength = None\<rparr>;
          req = \<lparr>rws_DomainUUID = domainId,
                 rws_Domain = domain,
                 rws_Execution = execution,
                 rws_WorkflowTypeName = workflowTypeName,
                 rws_StartTimestamp = startTimeUnixNano,
                 rws_WorkflowTimeout = workflowTimeout\<rparr>
      in case visibilityProducer env of
           None \<Rightarrow> (RecordWorkflowExecutionStarted env req, [RecordedStarted req])
         | Some Publish \<Rightarrow>
            (case Publish msg of
               Some err \<Rightarrow> (Some err, [Published msg])
             | None \<Rightarrow> (RecordWorkflowExecutionStarted env req,
                         [Published msg, RecordedStarted req])))"

definition recordWorkflowStarted ::
  "historyEnv \<Rightarrow> string \<Rightarrow> WorkflowExecution \<Rightarrow> string \<Rightarrow> int \<Rightarrow> int \<Rightarrow> outcome" where
  "recordWorkflowStarted env domainId execution workflowTypeName startTimeUnixNano
       workflowTimeout =
     (let wid = WorkflowId execution in
      case GetDomainByID env domainId of
        Inl err \<Rightarrow>
          (if err \<noteq> EntityNotExistsError then (Some err, [])
           else publishAndRecordStarted env defaultDomainName domainId execution
                  workflowTypeName startTimeUnixNano workflowTimeout)
      | Inr domainEntry \<Rightarrow>
          (let domain = GetInfoName domainEntry;
               isSampledEnabled = IsSampledForLongerRetentionEnabled domainEntry wid
           in if isSampledEnabled \<and> \<not> IsSampledForLongerRetention domainEntry wid
              then (None, [])
              else publishAndRecordStarted env domain domainId execution
                     workflowTypeName startTimeUnixNano workflowTimeout))"

text \<open>The part of \<open>recordWorkflowClosed\<close> from the comment \<open>publish to kafka\<close> on.\<close>

definition publishAndRecordClosed ::
  "historyEnv \<Rightarrow> 64 word \<Rightarrow> string \<Rightarrow> string \<Rightarrow> WorkflowExecution \<Rightarrow> string \<Rightarrow> int \<Rightarrow> int
     \<Rightarrow> WorkflowExecutionCloseStatus \<Rightarrow> int \<Rightarrow> outcome" where
  "publishAndRecordClosed env retentionSeconds domain domainId execution workflowTypeName
       startTimeUnixNano endTimeUnixNano status historyLen =
     (let msg = \<lparr>msgType = Some Closed,
                 domainID = Some domainId,
                 workflowID = Some (WorkflowId execution),
                 runID = Some (RunId execution),
                 workflowType = Some workflowTypeName,
                 startTime = Some startTimeUnixNano,
                 closeTime = Some endTimeUnixNano,
                 closeStatus = Some status,
                 historyLength = Some historyLen\<rparr>;
          req = \<lparr>rwc_DomainUUID = domainId,
                 rwc_Domain = domain,
                 rwc_Execution = execution,
                 rwc_WorkflowTypeName = workflowTypeName,
                 rwc_StartTimestamp = startTimeUnixNano,
                 rwc_CloseTimestamp = endTimeUnixNano,
                 rwc_Status = status,
                 rwc_HistoryLength = historyLen,
                 rwc_RetentionSeconds = retentionSeconds\<rparr>
      in case visibilityProducer env of
           None \<Rightarrow> (RecordWorkflowExecutionClosed env req, [RecordedClosed req])
         | Some Publish \<Rightarrow>
            (case Publish msg of
               Some err \<Rightarrow> (Some err, [Published msg])
             | None \<Rightarrow> (RecordWorkflowExecutionClosed env req,
                         [Published msg, RecordedClosed req])))"

text \<open>\<open>int64(domainEntry.GetRetentionDays(wid)) * int64(secondsInDay)\<close>: both int32
  values are sign-extended to 64 bits and multiplied there.\<close>

definition retentionSecondsOf :: "32 word \<Rightarrow> 64 word" where
  "retentionSecondsOf days = scast days * scast secondsInDay"

definition recordWorkflowClosed ::
  "historyEnv \<Rightarrow> string \<Rightarrow> WorkflowExecution \<Rightarrow> string \<Rightarrow> int \<Rightarrow> int
     \<Rightarrow> WorkflowExecutionCloseStatus \<Rightarrow> int \<Rightarrow> outcome" where
  "recordWorkflowClosed env domainId execution workflowTypeName startTimeUnixNano
       endTimeUnixNano status historyLen =
     (let wid = WorkflowId execution in
      case GetDomainByID env domainId of
        Inl err \<Rightarrow>
          (if err \<noteq> EntityNotExistsError then (Some err, [])
           else publishAndRecordClosed env 0 defaultDomainName domainId execution
                  workflowTypeName startTimeUnixNano endTimeUnixNano status historyLen)
      | Inr domainEntry \<Rightarrow>
          (let retentionSeconds = retentionSecondsOf (GetRetentionDays domainEntry wid);
               domain = GetInfoName domainEntry;
               isSampledEnabled = IsSampledForLongerRetentionEnabled domainEntry wid
           in if isSampledEnabled \<and> \<not> IsSampledForLongerRetention domainEntry wid
              then (None, [])
              else publishAndRecordClosed env retentionSeconds domain domainId execution
                     workflowTypeName startTimeUnixNano endTimeUnixNano status historyLen))"

subsection \<open>transferQueueStandbyProcessorImpl\<close>

definition getDomainIDAndWorkflowExecution :: "TransferTaskInfo \<Rightarrow> string \<times> WorkflowExecution" where
  "getDomainIDAndWorkflowExecution transferTask =
     (DomainID transferTask,
      \<lparr>WorkflowId = WorkflowID transferTask, RunId = RunID transferTask\<rparr>)"

text \<open>\<open>discardTask\<close>; the error line it logs when it answers true is not kept.\<close>

definition discardTask :: "historyEnv \<Rightarrow> TransferTaskInfo \<Rightarrow> bool" where
  "discardTask env transferTask =
     (let now = GetCurrentTime env (clusterName env)
      in time_Sub now (VisibilityTimestamp transferTask) > StandbyClusterDelay env)"

text \<open>
  \<open>processTransfer\<close>. The closure \<open>action\<close> may assign variables of the enclosing
  handler that the closure \<open>postAction\<close> reads afterwards: \<open>action\<close> returns them as a third
  component and \<open>postAction\<close> takes them. \<open>processBody\<close> is the function body after the
  \<open>defer\<close> statement; the deferred function runs last and is given nil in place of
  \<open>ErrTaskRetry\<close>. When \<open>getOrCreateWorkflowExecution\<close> fails the function returns before
  the \<open>defer\<close> statement.
\<close>

definition processBody ::
  "bool \<Rightarrow> historyEnv \<Rightarrow> workflowExecutionContext \<Rightarrow> TransferTaskInfo
     \<Rightarrow> (mutableState \<Rightarrow> error option \<times> effect list \<times> 'c)
     \<Rightarrow> ('c \<Rightarrow> outcome) \<Rightarrow> outcome" where
  "processBody processTaskIfClosed env context transferTask action postAction =
     (case loadMutableStateForTransferTask env context transferTask of
        Inl err \<Rightarrow> (Some err, [])
      | Inr None \<Rightarrow> (None, [])
      | Inr (Some msBuilder) \<Rightarrow>
          (if \<not> processTaskIfClosed \<and> \<not> IsWorkflowExecutionRunning msBuilder
           then (None, [])
           else
             (case action msBuilder of
                (Some err, effs, captured) \<Rightarrow> (Some err, effs)
              | (None, effs, captured) \<Rightarrow>
                  (case postAction captured of
                     (err, effs') \<Rightarrow> (err, effs @ [Released None] @ effs')))))"

definition processTransfer ::
  "bool \<Rightarrow> historyEnv \<Rightarrow> TransferTaskInfo
     \<Rightarrow> (mutableState \<Rightarrow> error option \<times> effect list \<times> 'c)
     \<Rightarrow> ('c \<Rightarrow> outcome) \<Rightarrow> outcome" where
  "processTransfer processTaskIfClosed env transferTask action postAction =
     (case getOrCreateWorkflowExecution env
             (fst (getDomainIDAndWorkflowExecution transferTask))
             (snd (getDomainIDAndWorkflowExecution transferTask)) of
        Inl err \<Rightarrow> (Some err, [])
      | Inr context \<Rightarrow>
          (case processBody processTaskIfClosed env context transferTask action postAction of
             (retError, effs) \<Rightarrow>
               (retError,
                effs @ [Released (if retError = Some ErrTaskRetry then None else retError)])))"

definition postActionNoOp :: "unit \<Rightarrow> outcome" where
  "postActionNoOp u = (None, [])"

text \<open>The closures of \<open>processActivityTask\<close>; the captured variable is
  \<open>activityScheduleToStartTimeout\<close>, a pointer that stays nil unless the action sets it.\<close>

definition activityAction ::
  "historyEnv \<Rightarrow> TransferTaskInfo \<Rightarrow> mutableState \<Rightarrow> error option \<times> effect list \<times> int option" where
  "activityAction env transferTask msBuilder =
     (case GetActivityInfo msBuilder (ScheduleID transferTask) of
        None \<Rightarrow> (None, [], None)
      | Some activityInfo \<Rightarrow>
          (case verifyTaskVersion env (DomainID transferTask) (ai_Version activityInfo)
                  (Version transferTask) transferTask of
             (ok, Some err) \<Rightarrow> (Some err, [], None)
           | (False, None) \<Rightarrow> (None, [], None)
           | (True, None) \<Rightarrow>
               (let now = GetCurrentTime env (clusterName env);
                    pushToMatching =
                      (time_Sub now (VisibilityTimestamp transferTask) > StandbyClusterDelay env)
                in if ai_StartedID activityInfo = EmptyEventID env
                   then (if \<not> pushToMatching then (Some ErrTaskRetry, [], None)
                         else (None, [],
                               Some (MinInt32 (ai_ScheduleToStartTimeout activityInfo)
                                       (MaxTaskTimeout env))))
                   else (None, [], None))))"

definition activityPostAction :: "historyEnv \<Rightarrow> TransferTaskInfo \<Rightarrow> int option \<Rightarrow> outcome" where
  "activityPostAction env transferTask activityScheduleToStartTimeout =
     (case activityScheduleToStartTimeout of
        None \<Rightarrow> (None, [])
      | Some t \<Rightarrow> pushActivity env transferTask (MinInt32 t (MaxTaskTimeout env)))"

definition processActivityTask :: "historyEnv \<Rightarrow> TransferTaskInfo \<Rightarrow> outcome" where
  "processActivityTask env transferTask =
     processTransfer False env transferTask
       (activityAction env transferTask) (activityPostAction env transferTask)"

text \<open>
  The closures of \<open>processDecisionTask\<close>; the captured variables are
  \<open>decisionScheduleToStartTimeout\<close> and \<open>tasklist\<close>, set together. The two calls of
  \<open>recordWorkflowStarted\<close> pass \<open>executionInfo.NextEventID\<close> as a sixth argument, which the
  definition in transferQueueProcessorBase.go does not take; it is left out. The error
  of the second call is assigned to \<open>err\<close> and never read.
\<close>

definition decisionAction ::
  "historyEnv \<Rightarrow> TransferTaskInfo \<Rightarrow> mutableState
     \<Rightarrow> error option \<times> effect list \<times> (int \<times> string) option" where
  "decisionAction env transferTask msBuilder =
     (let execution = \<lparr>WorkflowId = WorkflowID transferTask, RunId = RunID transferTask\<rparr>;
          executionInfo = GetExecutionInfo msBuilder;
          workflowTimeout = ei_WorkflowTimeout executionInfo;
          decisionTimeout = MinInt32 workflowTimeout (MaxTaskTimeout env);
          wfTypeName = ei_WorkflowTypeName executionInfo;
          startTimestamp = ei_StartTimestamp executionInfo;
          markWorkflowAsOpen = (ScheduleID transferTask \<le> FirstEventID env + 2);
          started = recordWorkflowStarted env (DomainID transferTask) execution wfTypeName
                      startTimestamp workflowTimeout
      in case GetPendingDecision msBuilder (ScheduleID transferTask) of
           None \<Rightarrow>
             (if markWorkflowAsOpen
              then (case fst started of
                      Some err \<Rightarrow> (Some err, snd started, None)
                    | None \<Rightarrow> (None, snd started, None))
              else (None, [], None))
         | Some decisionInfo \<Rightarrow>
             (case verifyTaskVersion env (DomainID transferTask) (di_Version decisionInfo)
                     (Version transferTask) transferTask of
                (ok, Some err) \<Rightarrow> (Some err, [], None)
              | (False, None) \<Rightarrow> (None, [], None)
              | (True, None) \<Rightarrow>
                  (let effs = (if markWorkflowAsOpen then snd started else []);
                       now = GetCurrentTime env (clusterName env);
                       pushToMatching =
                         (time_Sub now (VisibilityTimestamp transferTask)
                            > StandbyClusterDelay env)
                   in if di_StartedID decisionInfo = EmptyEventID env
                      then (if \<not> pushToMatching then (Some ErrTaskRetry, effs, None)
                            else (None, effs, Some (decisionTimeout, TaskList transferTask)))
                      else (None, effs, None))))"

definition decisionPostAction ::
  "historyEnv \<Rightarrow> TransferTaskInfo \<Rightarrow> (int \<times> string) option \<Rightarrow> outcome" where
  "decisionPostAction env transferTask captured =
     (case captured of
        None \<Rightarrow> (None, [])
      | Some (decisionScheduleToStartTimeout, tasklist) \<Rightarrow>
          pushDecision env transferTask tasklist
            (MinInt32 decisionScheduleToStartTimeout (MaxTaskTimeout env)))"

definition processDecisionTask :: "historyEnv \<Rightarrow> TransferTaskInfo \<Rightarrow> outcome" where
  "processDecisionTask env transferTask =
     processTransfer False env transferTask
       (decisionAction env transferTask) (decisionPostAction env transferTask)"

text \<open>The closure of \<open>processCloseExecution\<close>. The call of \<open>recordWorkflowClosed\<close> passes
  \<open>executionInfo.NextEventID\<close> as an eighth argument, which the definition in
  transferQueueProcessorBase.go does not take; it is left out.\<close>

definition closeExecutionAction ::
  "historyEnv \<Rightarrow> TransferTaskInfo \<Rightarrow> mutableState \<Rightarrow> error option \<times> effect list \<times> unit" where
  "closeExecutionAction env transferTask msBuilder =
     (if IsWorkflowExecutionRunning msBuilder then (None, [], ())
      else
        (let execution = \<lparr>WorkflowId = WorkflowID transferTask, RunId = RunID transferTask\<rparr>;
             executionInfo = GetExecutionInfo msBuilder;
             workflowTypeName = ei_WorkflowTypeName executionInfo;
             workflowStartTimestamp = ei_StartTimestamp executionInfo;
             workflowCloseTimestamp = GetLastUpdatedTimestamp msBuilder;
             workflowCloseStatus =
               getWorkflowExecutionCloseStatus env (ei_CloseStatus executionInfo);
             workflowHistoryLength = GetNextEventID msBuilder
         in case verifyTaskVersion env (DomainID transferTask) (GetLastWriteVersion msBuilder)
                   (Version transferTask) transferTask of
              (ok, Some err) \<Rightarrow> (Some err, [], ())
            | (False, None) \<Rightarrow> (None, [], ())
            | (True, None) \<Rightarrow>
                (case recordWorkflowClosed env (DomainID transferTask) execution
                        workflowTypeName workflowStartTimestamp workflowCloseTimestamp
                        workflowCloseStatus workflowHistoryLength of
                   (err, effs) \<Rightarrow> (err, effs, ()))))"

definition processCloseExecution :: "historyEnv \<Rightarrow> TransferTaskInfo \<Rightarrow> outcome" where
  "processCloseExecution env transferTask =
     processTransfer True env transferTask
       (closeExecutionAction env transferTask) postActionNoOp"

definition cancelExecutionAction ::
  "historyEnv \<Rightarrow> TransferTaskInfo \<Rightarrow> mutableState \<Rightarrow> error option \<times> effect list \<times> unit" where
  "cancelExecutionAction env transferTask msBuilder =
     (case GetRequestCancelInfo msBuilder (ScheduleID transferTask) of
        None \<Rightarrow> (None, [], ())
      | Some requestCancelInfo \<Rightarrow>
          (case verifyTaskVersion env (DomainID transferTask) (rci_Version requestCancelInfo)
                  (Version transferTask) transferTask of
             (ok, Some err) \<Rightarrow> (Some err, [], ())
           | (False, None) \<Rightarrow> (None, [], ())
           | (True, None) \<Rightarrow>
               (if discardTask env transferTask then (Some ErrTaskDiscarded, [], ())
                else (Some ErrTaskRetry, [], ()))))"

definition processCancelExecution :: "historyEnv \<Rightarrow> TransferTaskInfo \<Rightarrow> outcome" where
  "processCancelExecution env transferTask =
     processTransfer False env transferTask
       (cancelExecutionAction env transferTask) postActionNoOp"

definition signalExecutionAction ::
  "historyEnv \<Rightarrow> TransferTaskInfo \<Rightarrow> mutableState \<Rightarrow> error option \<times> effect list \<times> unit" where
  "signalExecutionAction env transferTask msBuilder =
     (case GetSignalInfo msBuilder (ScheduleID transferTask) of
        None \<Rightarrow> (None, [], ())
      | Some signalInfo \<Rightarrow>
          (case verifyTaskVersion env (DomainID transferTask) (si_Version signalInfo)
                  (Version transferTask) transferTask of
             (ok, Some err) \<Rightarrow> (Some err, [], ())
           | (False, None) \<Rightarrow> (None, [], ())
           | (True, None) \<Rightarrow>
               (if discardTask env transferTask then (Some ErrTaskDiscarded, [], ())
                else (Some ErrTaskRetry, [], ()))))"

definition processSignalExecution :: "historyEnv \<Rightarrow> TransferTaskInfo \<Rightarrow> outcome" where
  "processSignalExecution env transferTask =
     processTransfer False env transferTask
       (signalExecutionAction env transferTask) postActionNoOp"

definition startChildExecutionAction ::
  "historyEnv \<Rightarrow> TransferTaskInfo \<Rightarrow> mutableState \<Rightarrow> error option \<times> effect list \<times> unit" where
  "startChildExecutionAction env transferTask msBuilder =
     (case GetChildExecutionInfo msBuilder (ScheduleID transferTask) of
        None \<Rightarrow> (None, [], ())
      | Some childWorkflowInfo \<Rightarrow>
          (case verifyTaskVersion env (DomainID transferTask) (ci_Version childWorkflowInfo)
                  (Version transferTask) transferTask of
             (ok, Some err) \<Rightarrow> (Some err, [], ())
           | (False, None) \<Rightarrow> (None, [], ())
           | (True, None) \<Rightarrow>
               (if ci_StartedID childWorkflowInfo = EmptyEventID env
                then (if discardTask env transferTask then (Some ErrTaskDiscarded, [], ())
                      else (Some ErrTaskRetry, [], ()))
                else (None, [], ()))))"

definition processStartChildExecution :: "historyEnv \<Rightarrow> TransferTaskInfo \<Rightarrow> outcome" where
  "processStartChildExecution env transferTask =
     processTransfer False env transferTask
       (startChildExecutionAction env transferTask) postActionNoOp"

text \<open>\<open>process\<close>: the filter, then the dispatch on the task type. The metrics scope it
  also returns is named after the constant in the source.\<close>

datatype metricsScope =
    TransferStandbyQueueProcessorScope
  | TransferStandbyTaskActivityScope
  | TransferStandbyTaskDecisionScope
  | TransferStandbyTaskCloseExecutionScope
  | TransferStandbyTaskCancelExecutionScope
  | TransferStandbyTaskSignalExecutionScope
  | TransferStandbyTaskStartChildExecutionScope

definition transferTaskFilter :: "historyEnv \<Rightarrow> TransferTaskInfo \<Rightarrow> bool \<times> error option" where
  "transferTaskFilter env task = verifyStandbyTask env (clusterName env) (DomainID task) task"

definition process :: "historyEnv \<Rightarrow> queueTaskInfo \<Rightarrow> metricsScope \<times> outcome" where
  "process env qTask =
     (case qTask of
        OtherQueueTask \<Rightarrow> (TransferStandbyQueueProcessorScope, (Some errUnexpectedQueueTask, []))
      | TransferTask task \<Rightarrow>
          (case transferTaskFilter env task of
             (ok, Some err) \<Rightarrow> (TransferStandbyQueueProcessorScope, (Some err, []))
           | (False, None) \<Rightarrow> (TransferStandbyQueueProcessorScope, (None, []))
           | (True, None) \<Rightarrow>
               (case TaskType task of
                  TransferTaskTypeActivityTask \<Rightarrow>
                    (TransferStandbyTaskActivityScope, processActivityTask env task)
                | TransferTaskTypeDecisionTask \<Rightarrow>
                    (TransferStandbyTaskDecisionScope, processDecisionTask env task)
                | TransferTaskTypeCloseExecution \<Rightarrow>
                    (TransferStandbyTaskCloseExecutionScope, processCloseExecution env task)
                | TransferTaskTypeCancelExecution \<Rightarrow>
                    (TransferStandbyTaskCancelExecutionScope, processCancelExecution env task)
                | TransferTaskTypeSignalExecution \<Rightarrow>
                    (TransferStandbyTaskSignalExecutionScope, processSignalExecution env task)
                | TransferTaskTypeStartChildExecution \<Rightarrow>
                    (TransferStandbyTaskStartChildExecutionScope,
                     processStartChildExecution env task)
                | TransferTaskTypeOther n \<Rightarrow>
                    (TransferStandbyQueueProcessorScope, (Some errUnknownTransferTask, [])))))"

section \<open>Sample inputs\<close>

subsection \<open>A bulk batch\<close>

text \<open>
  The lines of three bulk framings and a library that knows them: an index request for
  document \<open>runA\<close> at the version of an open message, with its document; an index
  request with a body that does not decode; and a delete request for the same document.
  The line texts stand for the JSON they abbreviate; the sample decoder gives their
  decodings.
\<close>

definition sampleIndexLine :: string where
  "sampleIndexLine = ''{index:{_index:cadence-visibility,_id:runA,_type:_doc,version:10,version_type:external}}''"

definition sampleDeleteLine :: string where
  "sampleDeleteLine = ''{delete:{_index:cadence-visibility,_id:runA,_type:_doc,version:30,version_type:external}}''"

definition sampleDocLine :: string where
  "sampleDocLine = ''{msgType:Open,domainID:d1,workflowID:wf1,runID:runA,workflowType:T,startTime:100}''"

definition sampleCorruptLine :: string where
  "sampleCorruptLine = ''{msgType:''"

definition sampleHeader :: "int \<Rightarrow> (string \<rightharpoonup> jsonValue)" where
  "sampleHeader version =
     [''_index'' \<mapsto> JString ''cadence-visibility'', ''_id'' \<mapsto> JString ''runA'',
      ''_type'' \<mapsto> JString ''_doc'', ''version'' \<mapsto> JNumber version,
      ''version_type'' \<mapsto> JString ''external'']"

definition sampleDoc :: VisibilityMsg where
  "sampleDoc = \<lparr>msgType = Some Open, domainID = Some ''d1'', workflowID = Some ''wf1'',
     runID = Some ''runA'', workflowType = Some ''T'', startTime = Some 100,
     closeTime = None, closeStatus = None, historyLength = None\<rparr>"

definition sampleIndexRequest :: BulkableRequest where
  "sampleIndexRequest =
     BulkIndexRequest ''cadence-visibility'' ''_doc'' ''runA'' ''external'' 10 sampleDoc"

definition sampleLib :: esLib where
  "sampleLib =
     \<lparr>Source = (\<lambda>r. if r = sampleIndexRequest then Some [sampleIndexLine, sampleDocLine]
                     else if r = OtherBulkRequest 1 then Some [sampleIndexLine, sampleCorruptLine]
                     else if r = OtherBulkRequest 2 then Some [sampleDeleteLine]
                     else None),
      unmarshalHead = (\<lambda>l. if l = sampleIndexLine then Some [(''index'', sampleHeader 10)]
                            else if l = sampleDeleteLine then Some [(''delete'', sampleHeader 30)]
                            else None),
      unmarshalDoc = (\<lambda>l. if l = sampleDocLine then Some sampleDoc else None),
      versionForOpen = 10, versionForClose = 20, versionForDelete = 30\<rparr>"

text \<open>A processor with two messages in flight, for the open and the delete message of
  \<open>runA\<close>.\<close>

definition sampleProcessor :: esProcessorImpl where
  "sampleProcessor =
     \<lparr>mapToKafkaMsg = [''runAOpen'' \<mapsto> KafkaMessage 7, ''runADelete'' \<mapsto> KafkaMessage 8],
      acked = [], submitted = [], corruptedData = 0, failures = 0\<rparr>"

subsection \<open>A standby shard\<close>

text \<open>
  A transfer task for schedule id 7 at version 5, visible since instant 1000, and a
  running workflow whose mutable state holds a pending activity, decision, cancel
  request, signal and child at that schedule id, all at version 5 and none started.
\<close>

definition sampleTask :: TransferTaskInfo where
  "sampleTask =
     \<lparr>DomainID = ''d1'', WorkflowID = ''wf1'', RunID = ''runA'', TaskID = 42,
      TaskType = TransferTaskTypeSignalExecution, TargetDomainID = ''d1'', TaskList = ''tl'',
      ScheduleID = 7, Version = 5, VisibilityTimestamp = 1000\<rparr>"

definition sampleMutableState :: mutableState where
  "sampleMutableState =
     \<lparr>IsWorkflowExecutionRunning = True,
      GetExecutionInfo = \<lparr>ei_WorkflowTypeName = ''T'', ei_WorkflowTimeout = 60,
        ei_StartTimestamp = 900, ei_CloseStatus = 1, ei_NextEventID = 12\<rparr>,
      GetLastUpdatedTimestamp = 990,
      GetLastWriteVersion = 5,
      GetNextEventID = 12,
      GetActivityInfo = [7 \<mapsto> \<lparr>ai_Version = 5, ai_StartedID = - 23, ai_ScheduleToStartTimeout = 30\<rparr>],
      GetPendingDecision = [7 \<mapsto> \<lparr>di_Version = 5, di_StartedID = - 23\<rparr>],
      GetRequestCancelInfo = [7 \<mapsto> \<lparr>rci_Version = 5\<rparr>],
      GetSignalInfo = [7 \<mapsto> \<lparr>si_Version = 5\<rparr>],
      GetChildExecutionInfo = [7 \<mapsto> \<lparr>ci_Version = 5, ci_StartedID = - 23\<rparr>]\<rparr>"

text \<open>A domain kept for seven days, without sampling; and one that samples for longer
  retention and leaves every workflow but \<open>wf-sampled\<close> out of the sample.\<close>

definition sampleDomainEntry :: domainCacheEntry where
  "sampleDomainEntry =
     \<lparr>GetInfoName = ''sample-domain'', GetRetentionDays = (\<lambda>wid. 7),
      IsSampledForLongerRetentionEnabled = (\<lambda>wid. False),
      IsSampledForLongerRetention = (\<lambda>wid. False)\<rparr>"

definition sampledDomainEntry :: domainCacheEntry where
  "sampledDomainEntry =
     \<lparr>GetInfoName = ''sampled-domain'', GetRetentionDays = (\<lambda>wid. 7),
      IsSampledForLongerRetentionEnabled = (\<lambda>wid. True),
      IsSampledForLongerRetention = (\<lambda>wid. wid = ''wf-sampled'')\<rparr>"

text \<open>
  A shard of the standby cluster with a delay of 10 whose clock reads 1015, so that the
  sample task has been visible for 15. The domain cache knows \<open>d1\<close> and \<open>d2\<close> and
  reports every other domain as not existing; the version check passes on equal
  versions; every collaborator call succeeds.
\<close>

definition sampleEnv :: historyEnv where
  "sampleEnv =
     \<lparr>clusterName = ''standby'',
      GetCurrentTime = (\<lambda>cluster. 1015),
      StandbyClusterDelay = 10,
      GetDomainByID = (\<lambda>d. if d = ''d1'' then Inr sampleDomainEntry
                            else if d = ''d2'' then Inr sampledDomainEntry
                            else Inl EntityNotExistsError),
      getOrCreateWorkflowExecution = (\<lambda>d e. Inr (WorkflowExecutionContext 1)),
      loadMutableStateForTransferTask = (\<lambda>c t. Inr (Some sampleMutableState)),
      verifyTaskVersion = (\<lambda>d version taskVersion t. (version = taskVersion, None)),
      verifyStandbyTask = (\<lambda>cluster d t. (True, None)),
      getWorkflowExecutionCloseStatus = (\<lambda>n. if n = 1 then COMPLETED else FAILED),
      visibilityProducer = Some (\<lambda>msg. None),
      RecordWorkflowExecutionStarted = (\<lambda>req. None),
      RecordWorkflowExecutionClosed = (\<lambda>req. None),
      AddActivityTask = (\<lambda>req. None),
      AddDecisionTask = (\<lambda>req. None),
      EmptyEventID = - 23,
      FirstEventID = 1,
      MaxTaskTimeout = 31622400\<rparr>"

section \<open>Properties of the bulk processor\<close>

lemmas sample_es_defs = sampleIndexLine_def sampleDeleteLine_def sampleDocLine_def
  sampleCorruptLine_def sampleHeader_def sampleDoc_def sampleIndexRequest_def sampleLib_def
  sampleProcessor_def

lemmas es_defs = bulkAfterAction_def afterItem_def reconcile_def
  assertFloat64_def assertString_def convertESVersionToVisibilityMsgType_def resubmit_def
  getESRequest_def assignHeadFields_def zeroHeadFields_def esRequestTypeIndex_def
  esRequestTypeDelete_def ackKafkaMsg_def map_Get_def map_Remove_def retryRequest_def

subsection \<open>ackKafkaMsg on a key that is not in flight\<close>

text \<open>
  Claim C10. For a key that is not in the in-flight map, \<open>ackKafkaMsg\<close> returns
  normally and leaves the processor as it was: no handle is added to the acked ones,
  the map is the same, nothing is counted.
\<close>

theorem ackKafkaMsg_absent_key:
  "mapToKafkaMsg p key = None \<Longrightarrow> ackKafkaMsg key p = Inr p"
  by (simp add: ackKafkaMsg_def map_Get_def)

theorem ackKafkaMsg_absent_key_witness:
  "mapToKafkaMsg sampleProcessor ''runAClosed'' = None
   \<and> ackKafkaMsg ''runAClosed'' sampleProcessor = Inr sampleProcessor"
proof -
  have h: "mapToKafkaMsg sampleProcessor ''runAClosed'' = None"
    by (simp add: sampleProcessor_def)
  show ?thesis using h ackKafkaMsg_absent_key [OF h] by simp
qed

text \<open>So a response item with a success or conflict status whose key is not in flight
  changes nothing.\<close>

lemma reconcile_absent_key:
  assumes "mapToKafkaMsg p (ItemId (snd entry) @ head) = None"
    and "(200 \<le> Status (snd entry) \<and> Status (snd entry) < 300) \<or> Status (snd entry) = 409"
  shows "reconcile lib req head entry p = Inr p"
  using assms by (auto simp add: reconcile_def ackKafkaMsg_def map_Get_def Let_def)

subsection \<open>Add\<close>

text \<open>
  Claim C4. \<open>Add\<close> on a key that is in flight acks the new handle and submits nothing;
  on a key that is not in flight it stores the handle under the key and submits the
  request. Of two calls in a row with the same key the second acks its handle and
  submits nothing, so at most one request is submitted; when the key was free, the
  first request is the one submitted and the first handle the one stored.
\<close>

theorem Add_semantics:
  "(mapToKafkaMsg p key \<noteq> None \<longrightarrow>
      Add request key kafkaMsg p = p\<lparr>acked := acked p @ [kafkaMsg]\<rparr>)
   \<and> (mapToKafkaMsg p key = None \<longrightarrow>
      Add request key kafkaMsg p =
        p\<lparr>mapToKafkaMsg := (mapToKafkaMsg p)(key \<mapsto> KafkaMessage kafkaMsg),
          submitted := submitted p @ [request]\<rparr>)
   \<and> acked (Add request' key kafkaMsg' (Add request key kafkaMsg p))
        = acked (Add request key kafkaMsg p) @ [kafkaMsg']
   \<and> submitted (Add request' key kafkaMsg' (Add request key kafkaMsg p))
        = submitted (Add request key kafkaMsg p)
   \<and> length (submitted (Add request' key kafkaMsg' (Add request key kafkaMsg p)))
        \<le> length (submitted p) + 1
   \<and> (mapToKafkaMsg p key = None \<longrightarrow>
        submitted (Add request' key kafkaMsg' (Add request key kafkaMsg p))
          = submitted p @ [request]
        \<and> acked (Add request' key kafkaMsg' (Add request key kafkaMsg p))
          = acked p @ [kafkaMsg']
        \<and> mapToKafkaMsg (Add request' key kafkaMsg' (Add request key kafkaMsg p)) key
          = Some (KafkaMessage kafkaMsg))"
  by (simp add: Add_def map_Contains_def map_Put_def)

theorem Add_semantics_witness:
  "mapToKafkaMsg sampleProcessor ''runAOpen'' \<noteq> None
   \<and> Add sampleIndexRequest ''runAOpen'' 9 sampleProcessor = sampleProcessor\<lparr>acked := [9]\<rparr>
   \<and> mapToKafkaMsg sampleProcessor ''runBOpen'' = None
   \<and> Add sampleIndexRequest ''runBOpen'' 9 sampleProcessor =
        sampleProcessor\<lparr>mapToKafkaMsg := (mapToKafkaMsg sampleProcessor)(''runBOpen'' \<mapsto> KafkaMessage 9),
          submitted := [sampleIndexRequest]\<rparr>
   \<and> submitted (Add (OtherBulkRequest 1) ''runBOpen'' 10
                   (Add sampleIndexRequest ''runBOpen'' 9 sampleProcessor)) = [sampleIndexRequest]
   \<and> acked (Add (OtherBulkRequest 1) ''runBOpen'' 10
               (Add sampleIndexRequest ''runBOpen'' 9 sampleProcessor)) = [10]"
  using Add_semantics [of sampleProcessor "''runAOpen''" sampleIndexRequest 9]
    Add_semantics [of sampleProcessor "''runBOpen''" sampleIndexRequest 9 "OtherBulkRequest 1" 10]
  by (simp add: sampleProcessor_def Add_def map_Contains_def map_Put_def)

subsection \<open>What getESRequest rebuilds\<close>

text \<open>Whenever \<open>getESRequest\<close> returns a request, the header names the index operation,
  and the processor is unchanged.\<close>

lemma getESRequest_only_index:
  assumes "getESRequest lib input p = Inr (Some r, p')"
  shows "\<exists>line0 rest reqHead. input = line0 # rest \<and> unmarshalHead lib line0 = Some reqHead
           \<and> getReqType reqHead = ''index'' \<and> p' = p"
  using assms
  by (auto simp add: getESRequest_def esRequestTypeIndex_def
      split: list.splits option.splits sum.splits if_splits)

text \<open>
  Claim C3. The claim asks that \<open>getESRequest\<close> rebuild a delete request from a
  well-formed framing whose header names the delete operation. The \<open>switch\<close> has an
  empty case for \<open>esRequestTypeDelete\<close>, so the function returns nil: on the sample delete
  framing the result is no request.
\<close>

theorem getESRequest_delete_returns_nil:
  "getESRequest sampleLib [sampleDeleteLine] sampleProcessor = Inr (None, sampleProcessor)"
  by (simp add: es_defs sample_es_defs)

subsection \<open>Reconciliation after a successful flush\<close>

lemma bulkAfterAction_success:
  "bulkAfterAction lib bulkId requests (Some responseItems) None p =
     forEach (afterItem lib requests responseItems) [0..<length requests] p"
  by (simp add: bulkAfterAction_def)

lemma resubmit_keeps_acks:
  "resubmit lib req p = Inr p' \<Longrightarrow> acked p' = acked p \<and> mapToKafkaMsg p' = mapToKafkaMsg p"
  by (auto simp add: resubmit_def getESRequest_def
      split: list.splits option.splits sum.splits if_splits prod.splits)

lemma resubmit_index:
  assumes "unmarshalHead lib line0 = Some [(''index'', header)]"
    and "assignHeadFields header = Inr f"
    and "(if length rest = 1 then unmarshalDoc lib (hd rest) else Some zeroVisibilityMsg) = Some doc"
  shows "resubmit lib (line0 # rest) p =
           Inr (p\<lparr>submitted := submitted p @
                  [BulkIndexRequest (hf_index f) (hf_typ f) (hf_id f) (hf_versionType f)
                     (hf_version f) doc]\<rparr>)"
proof -
  have "rest ! 0 = hd rest" if "length rest = 1"
    using that by (cases rest) auto
  then show ?thesis
    using assms
    by (auto simp add: resubmit_def getESRequest_def esRequestTypeIndex_def split: if_splits)
qed

text \<open>
  Claim C2, as amended. Take item \<open>i\<close> of a flush that succeeded: its request has a
  source whose header decodes to one operation with a numeric version, its response
  holds one item, and the key made of the item's document id and the message-type tag of
  the version is in flight with handle \<open>h\<close>. A status in \<open>[200,300)\<close> and the status 409
  ack \<open>h\<close> and remove the key, and submit nothing. Any other status goes to the
  resubmission, which never acks a handle nor touches the map, and which submits the
  request that \<open>getESRequest\<close> rebuilds: for the index operation with a well-typed header
  and a body that decodes, the index request with the header's fields and that body.
\<close>

theorem afterItem_reconciles:
  assumes src: "Source lib (requests ! i) = Some (line0 # rest)"
    and head: "unmarshalHead lib line0 = Some [(op, header)]"
    and ver: "header ''version'' = Some (JNumber version)"
    and item: "i < length responseItems" "responseItems ! i = [(op', res)]"
    and key: "key = ItemId res @ convertESVersionToVisibilityMsgType lib version"
    and stored: "mapToKafkaMsg p key = Some (KafkaMessage h)"
  shows "afterItem lib requests responseItems i p =
           (if (200 \<le> Status res \<and> Status res < 300) \<or> Status res = 409
            then Inr (p\<lparr>acked := acked p @ [h],
                       mapToKafkaMsg := (mapToKafkaMsg p)(key := None)\<rparr>)
            else resubmit lib (line0 # rest) p)
         \<and> (\<forall>p'. resubmit lib (line0 # rest) p = Inr p'
               \<longrightarrow> acked p' = acked p \<and> mapToKafkaMsg p' = mapToKafkaMsg p)
         \<and> (op = ''index'' \<and> assignHeadFields header = Inr f
              \<and> (if length rest = 1 then unmarshalDoc lib (hd rest) else Some zeroVisibilityMsg)
                  = Some doc
             \<longrightarrow> resubmit lib (line0 # rest) p =
                   Inr (p\<lparr>submitted := submitted p @
                          [BulkIndexRequest (hf_index f) (hf_typ f) (hf_id f) (hf_versionType f)
                             (hf_version f) doc]\<rparr>))"
proof (intro conjI allI impI)
  show "afterItem lib requests responseItems i p =
           (if (200 \<le> Status res \<and> Status res < 300) \<or> Status res = 409
            then Inr (p\<lparr>acked := acked p @ [h],
                       mapToKafkaMsg := (mapToKafkaMsg p)(key := None)\<rparr>)
            else resubmit lib (line0 # rest) p)"
    using assms
    by (auto simp add: afterItem_def assertFloat64_def reconcile_def ackKafkaMsg_def
        map_Get_def map_Remove_def Let_def split: sum.splits)
next
  fix p' assume "resubmit lib (line0 # rest) p = Inr p'"
  then show "acked p' = acked p" "mapToKafkaMsg p' = mapToKafkaMsg p"
    using resubmit_keeps_acks by blast+
next
  assume a: "op = ''index'' \<and> assignHeadFields header = Inr f
              \<and> (if length rest = 1 then unmarshalDoc lib (hd rest) else Some zeroVisibilityMsg)
                  = Some doc"
  show "resubmit lib (line0 # rest) p =
                   Inr (p\<lparr>submitted := submitted p @
                          [BulkIndexRequest (hf_index f) (hf_typ f) (hf_id f) (hf_versionType f)
                             (hf_version f) doc]\<rparr>)"
    using a head resubmit_index [of lib line0 header f rest doc p] by simp
qed

text \<open>The three statuses on the sample index request.\<close>

theorem afterItem_reconciles_witness:
  "afterItem sampleLib [sampleIndexRequest] [[(''index'', \<lparr>ItemId = ''runA'', Status = 200\<rparr>)]] 0
      sampleProcessor
     = Inr (sampleProcessor\<lparr>acked := [7],
              mapToKafkaMsg := (mapToKafkaMsg sampleProcessor)(''runAOpen'' := None)\<rparr>)
   \<and> afterItem sampleLib [sampleIndexRequest] [[(''index'', \<lparr>ItemId = ''runA'', Status = 409\<rparr>)]] 0
      sampleProcessor
     = Inr (sampleProcessor\<lparr>acked := [7],
              mapToKafkaMsg := (mapToKafkaMsg sampleProcessor)(''runAOpen'' := None)\<rparr>)
   \<and> afterItem sampleLib [sampleIndexRequest] [[(''index'', \<lparr>ItemId = ''runA'', Status = 500\<rparr>)]] 0
      sampleProcessor
     = Inr (sampleProcessor\<lparr>submitted := [sampleIndexRequest]\<rparr>)"
proof -
  let ?f = "\<lparr>hf_index = ''cadence-visibility'', hf_id = ''runA'', hf_typ = ''_doc'',
             hf_version = 10, hf_versionType = ''external''\<rparr>"
  have src: "Source sampleLib ([sampleIndexRequest] ! 0) = Some (sampleIndexLine # [sampleDocLine])"
    by (simp add: sampleLib_def)
  have head: "unmarshalHead sampleLib sampleIndexLine = Some [(''index'', sampleHeader 10)]"
    by (simp add: sampleLib_def)
  have ver: "sampleHeader 10 ''version'' = Some (JNumber 10)"
    by (simp add: sampleHeader_def)
  have len: "0 < length [[(''index'', \<lparr>ItemId = ''runA'', Status = s\<rparr>)]]" for s :: int
    by simp
  have item: "[[(''index'', \<lparr>ItemId = ''runA'', Status = s\<rparr>)]] ! 0
                = [(''index'', \<lparr>ItemId = ''runA'', Status = s\<rparr>)]" for s :: int
    by simp
  have key: "''runAOpen'' = ItemId \<lparr>ItemId = ''runA'', Status = s\<rparr>
               @ convertESVersionToVisibilityMsgType sampleLib 10" for s :: int
    by (simp add: sampleLib_def convertESVersionToVisibilityMsgType_def)
  have stored: "mapToKafkaMsg sampleProcessor ''runAOpen'' = Some (KafkaMessage 7)"
    by (simp add: sampleProcessor_def)
  have f: "assignHeadFields (sampleHeader 10) = Inr ?f"
    by (simp add: sampleHeader_def assignHeadFields_def assertString_def assertFloat64_def)
  have doc: "(if length [sampleDocLine] = 1 then unmarshalDoc sampleLib (hd [sampleDocLine])
              else Some zeroVisibilityMsg) = Some sampleDoc"
    by (simp add: sampleLib_def)
  note inst = afterItem_reconciles [OF src head ver len item key stored, where f = ?f and doc = sampleDoc]
  have re: "resubmit sampleLib [sampleIndexLine, sampleDocLine] sampleProcessor
              = Inr (sampleProcessor\<lparr>submitted := [sampleIndexRequest]\<rparr>)"
    using inst [of 500, THEN conjunct2, THEN conjunct2] f doc
    by (simp add: sampleIndexRequest_def sampleProcessor_def)
  have a: "afterItem sampleLib [sampleIndexRequest] [[(''index'', \<lparr>ItemId = ''runA'', Status = 200\<rparr>)]] 0
      sampleProcessor
     = Inr (sampleProcessor\<lparr>acked := [7],
              mapToKafkaMsg := (mapToKafkaMsg sampleProcessor)(''runAOpen'' := None)\<rparr>)"
    using inst [of 200, THEN conjunct1] by (simp add: sampleProcessor_def)
  have b: "afterItem sampleLib [sampleIndexRequest] [[(''index'', \<lparr>ItemId = ''runA'', Status = 409\<rparr>)]] 0
      sampleProcessor
     = Inr (sampleProcessor\<lparr>acked := [7],
              mapToKafkaMsg := (mapToKafkaMsg sampleProcessor)(''runAOpen'' := None)\<rparr>)"
    using inst [of 409, THEN conjunct1] by (simp add: sampleProcessor_def)
  have c: "afterItem sampleLib [sampleIndexRequest] [[(''index'', \<lparr>ItemId = ''runA'', Status = 500\<rparr>)]] 0
      sampleProcessor
     = Inr (sampleProcessor\<lparr>submitted := [sampleIndexRequest]\<rparr>)"
    using inst [of 500, THEN conjunct1] re by simp
  show ?thesis using a b c by simp
qed

text \<open>
  Claim C2 as stated fails: on a status outside \<open>[200,300)\<close> and other than 409 the
  request is not always resubmitted. The sample index request whose body does not
  decode gets status 500, and the processor is left as it was, with nothing submitted.
\<close>

theorem bulkAfterAction_corrupt_body_not_resubmitted:
  "bulkAfterAction sampleLib 1 [OtherBulkRequest 1]
     (Some [[(''index'', \<lparr>ItemId = ''runA'', Status = 500\<rparr>)]]) None sampleProcessor
   = Inr sampleProcessor \<and> submitted sampleProcessor = []"
  by (simp add: es_defs sample_es_defs)

section \<open>Properties of the standby transfer queue processor\<close>

lemmas sample_history_defs = sampleTask_def sampleMutableState_def sampleDomainEntry_def
  sampledDomainEntry_def sampleEnv_def

lemmas handler_defs = processTransfer_def processBody_def getDomainIDAndWorkflowExecution_def
  postActionNoOp_def processActivityTask_def activityAction_def activityPostAction_def
  processDecisionTask_def decisionAction_def decisionPostAction_def
  processCloseExecution_def closeExecutionAction_def
  processCancelExecution_def cancelExecutionAction_def
  processSignalExecution_def signalExecutionAction_def
  processStartChildExecution_def startChildExecutionAction_def

lemmas closed_defs = recordWorkflowClosed_def publishAndRecordClosed_def
lemmas started_defs = recordWorkflowStarted_def publishAndRecordStarted_def

subsection \<open>Visibility records of a closed workflow\<close>

lemma sint_retentionSecondsOf: "sint (retentionSecondsOf days) = sint days * 86400"
proof -
  have b: "- (2 ^ 31) \<le> sint days" "sint days < 2 ^ 31"
    using sint_ge [of days] sint_lt [of days] by simp_all
  have s1: "sint (scast days :: 64 word) = sint days"
    by (rule sint_up_scast) (simp add: is_up)
  have s2: "sint (scast secondsInDay :: 64 word) = 86400"
    by (simp add: secondsInDay_def)
  have "sint (retentionSecondsOf days) = signed_take_bit 63 (sint days * 86400)"
    unfolding retentionSecondsOf_def by (simp only: sint_word_ariths s1 s2) simp
  also have "\<dots> = sint days * 86400"
    using b by (intro signed_take_bit_int_eq_self) simp_all
  finally show ?thesis .
qed

text \<open>
  Claim C9. When the domain is resolved, has sampling for longer retention enabled for
  the workflow id and the workflow is not in the sample, \<open>recordWorkflowClosed\<close> returns
  nil with no call at all: nothing is published and nothing is written to the visibility
  store. \<open>recordWorkflowStarted\<close> does the same.
\<close>

theorem recordWorkflowClosed_sampling_filter:
  assumes "GetDomainByID env domainId = Inr entry"
    and "IsSampledForLongerRetentionEnabled entry (WorkflowId execution)"
    and "\<not> IsSampledForLongerRetention entry (WorkflowId execution)"
  shows "recordWorkflowClosed env domainId execution workflowTypeName startTimeUnixNano
           endTimeUnixNano status historyLen = (None, [])
       \<and> recordWorkflowStarted env domainId execution workflowTypeName startTimeUnixNano
           workflowTimeout = (None, [])"
  using assms by (simp add: recordWorkflowClosed_def recordWorkflowStarted_def)

theorem recordWorkflowClosed_sampling_filter_witness:
  "GetDomainByID sampleEnv ''d2'' = Inr sampledDomainEntry
   \<and> IsSampledForLongerRetentionEnabled sampledDomainEntry ''wf1''
   \<and> \<not> IsSampledForLongerRetention sampledDomainEntry ''wf1''
   \<and> recordWorkflowClosed sampleEnv ''d2'' \<lparr>WorkflowId = ''wf1'', RunId = ''runA''\<rparr> ''T''
        900 990 COMPLETED 12 = (None, [])"
proof -
  have a: "GetDomainByID sampleEnv ''d2'' = Inr sampledDomainEntry"
    by (simp add: sampleEnv_def)
  have b: "IsSampledForLongerRetentionEnabled sampledDomainEntry
             (WorkflowId \<lparr>WorkflowId = ''wf1'', RunId = ''runA''\<rparr>)"
    by (simp add: sampledDomainEntry_def)
  have c: "\<not> IsSampledForLongerRetention sampledDomainEntry
             (WorkflowId \<lparr>WorkflowId = ''wf1'', RunId = ''runA''\<rparr>)"
    by (simp add: sampledDomainEntry_def)
  show ?thesis
    using a b c recordWorkflowClosed_sampling_filter [OF a b c, of "''T''" 900 990 COMPLETED 12]
    by simp
qed

text \<open>
  Claim C5, as amended. With a producer configured, when the domain is resolved and the
  sampling filter does not leave the workflow out, or when the domain does not exist,
  \<open>recordWorkflowClosed\<close> publishes one message of type \<open>Closed\<close> with the identity
  triple, workflow type, start time, close time, close status and history length. If
  the publication fails its error is returned and nothing is written; if it succeeds the
  closed-execution record is written next and its result returned, with the domain's
  name and a retention in seconds of the retention days times 86400 (as a signed 64-bit
  value, without wrap-around), or with the default name and retention 0 when the domain
  does not exist.
\<close>

theorem recordWorkflowClosed_publishes_and_records:
  assumes producer: "visibilityProducer env = Some Publish"
    and msg: "msg = \<lparr>msgType = Some Closed, domainID = Some domainId,
                workflowID = Some (WorkflowId execution), runID = Some (RunId execution),
                workflowType = Some workflowTypeName, startTime = Some startTimeUnixNano,
                closeTime = Some endTimeUnixNano, closeStatus = Some status,
                historyLength = Some historyLen\<rparr>"
    and req: "req = (\<lambda>domain retention.
                \<lparr>rwc_DomainUUID = domainId, rwc_Domain = domain, rwc_Execution = execution,
                 rwc_WorkflowTypeName = workflowTypeName,
                 rwc_StartTimestamp = startTimeUnixNano, rwc_CloseTimestamp = endTimeUnixNano,
                 rwc_Status = status, rwc_HistoryLength = historyLen,
                 rwc_RetentionSeconds = retention\<rparr>)"
  shows "(GetDomainByID env domainId = Inr entry
          \<and> \<not> (IsSampledForLongerRetentionEnabled entry (WorkflowId execution)
                \<and> \<not> IsSampledForLongerRetention entry (WorkflowId execution))
          \<longrightarrow> recordWorkflowClosed env domainId execution workflowTypeName startTimeUnixNano
                endTimeUnixNano status historyLen
              = (case Publish msg of
                   Some err \<Rightarrow> (Some err, [Published msg])
                 | None \<Rightarrow>
                     (RecordWorkflowExecutionClosed env
                        (req (GetInfoName entry)
                           (retentionSecondsOf (GetRetentionDays entry (WorkflowId execution)))),
                      [Published msg,
                       RecordedClosed
                         (req (GetInfoName entry)
                            (retentionSecondsOf (GetRetentionDays entry (WorkflowId execution))))]))
            \<and> sint (retentionSecondsOf (GetRetentionDays entry (WorkflowId execution)))
                = sint (GetRetentionDays entry (WorkflowId execution)) * 86400)
       \<and> (GetDomainByID env domainId = Inl EntityNotExistsError
          \<longrightarrow> recordWorkflowClosed env domainId execution workflowTypeName startTimeUnixNano
                endTimeUnixNano status historyLen
              = (case Publish msg of
                   Some err \<Rightarrow> (Some err, [Published msg])
                 | None \<Rightarrow>
                     (RecordWorkflowExecutionClosed env (req defaultDomainName 0),
                      [Published msg, RecordedClosed (req defaultDomainName 0)])))"
  using producer
  by (auto simp add: msg req closed_defs sint_retentionSecondsOf Let_def split: option.splits)

theorem recordWorkflowClosed_publishes_and_records_witness:
  "recordWorkflowClosed sampleEnv ''d1'' \<lparr>WorkflowId = ''wf1'', RunId = ''runA''\<rparr> ''T''
        900 990 COMPLETED 12
     = (None,
        [Published \<lparr>msgType = Some Closed, domainID = Some ''d1'', workflowID = Some ''wf1'',
           runID = Some ''runA'', workflowType = Some ''T'', startTime = Some 900,
           closeTime = Some 990, closeStatus = Some COMPLETED, historyLength = Some 12\<rparr>,
         RecordedClosed \<lparr>rwc_DomainUUID = ''d1'', rwc_Domain = ''sample-domain'',
           rwc_Execution = \<lparr>WorkflowId = ''wf1'', RunId = ''runA''\<rparr>,
           rwc_WorkflowTypeName = ''T'', rwc_StartTimestamp = 900, rwc_CloseTimestamp = 990,
           rwc_Status = COMPLETED, rwc_HistoryLength = 12, rwc_RetentionSeconds = 604800\<rparr>])
   \<and> recordWorkflowClosed sampleEnv ''d9'' \<lparr>WorkflowId = ''wf1'', RunId = ''runA''\<rparr> ''T''
        900 990 COMPLETED 12
     = (None,
        [Published \<lparr>msgType = Some Closed, domainID = Some ''d9'', workflowID = Some ''wf1'',
           runID = Some ''runA'', workflowType = Some ''T'', startTime = Some 900,
           closeTime = Some 990, closeStatus = Some COMPLETED, historyLength = Some 12\<rparr>,
         RecordedClosed \<lparr>rwc_DomainUUID = ''d9'', rwc_Domain = ''defaultDomainName'',
           rwc_Execution = \<lparr>WorkflowId = ''wf1'', RunId = ''runA''\<rparr>,
           rwc_WorkflowTypeName = ''T'', rwc_StartTimestamp = 900, rwc_CloseTimestamp = 990,
           rwc_Status = COMPLETED, rwc_HistoryLength = 12, rwc_RetentionSeconds = 0\<rparr>])"
proof -
  have producer: "visibilityProducer sampleEnv = Some (\<lambda>msg. None)"
    by (simp add: sampleEnv_def)
  have d1: "GetDomainByID sampleEnv ''d1'' = Inr sampleDomainEntry"
    and d9: "GetDomainByID sampleEnv ''d9'' = Inl EntityNotExistsError"
    by (simp_all add: sampleEnv_def)
  have ns: "\<not> (IsSampledForLongerRetentionEnabled sampleDomainEntry w
                \<and> \<not> IsSampledForLongerRetention sampleDomainEntry w)" for w
    by (simp add: sampleDomainEntry_def)
  have rec: "RecordWorkflowExecutionClosed sampleEnv r = None" for r
    by (simp add: sampleEnv_def)
  have ret: "retentionSecondsOf (GetRetentionDays sampleDomainEntry w) = 604800" for w
    by (simp add: sampleDomainEntry_def retentionSecondsOf_def secondsInDay_def)
  have name: "GetInfoName sampleDomainEntry = ''sample-domain''"
    by (simp add: sampleDomainEntry_def)
  note inst = recordWorkflowClosed_publishes_and_records [OF producer refl refl]
  show ?thesis
    using inst [where domainId = "''d1''" and entry = sampleDomainEntry, THEN conjunct1, rule_format,
                OF conjI [OF d1 ns], THEN conjunct1]
      inst [where domainId = "''d9''", THEN conjunct2, rule_format, OF d9]
    by (simp add: rec ret name defaultDomainName_def)
qed

text \<open>
  Claim C5 as stated fails: a resolved domain and a configured producer are not enough.
  For the sample domain that samples for longer retention and a workflow outside the
  sample, nothing is published and nothing is written.
\<close>

theorem recordWorkflowClosed_sampled_out:
  "visibilityProducer sampleEnv \<noteq> None
   \<and> GetDomainByID sampleEnv ''d2'' = Inr sampledDomainEntry
   \<and> recordWorkflowClosed sampleEnv ''d2'' \<lparr>WorkflowId = ''wf2'', RunId = ''runB''\<rparr> ''T''
        900 990 COMPLETED 12 = (None, [])"
  by (simp add: sampleEnv_def sampledDomainEntry_def recordWorkflowClosed_def)

subsection \<open>processTransfer\<close>

lemma discardTask_iff:
  "discardTask env task =
     (time_Sub (GetCurrentTime env (clusterName env)) (VisibilityTimestamp task)
        > StandbyClusterDelay env)"
  by (simp add: discardTask_def)

lemma processTransfer_acquired:
  assumes "getOrCreateWorkflowExecution env (DomainID task)
             \<lparr>WorkflowId = WorkflowID task, RunId = RunID task\<rparr> = Inr context"
  shows "processTransfer b env task action postAction =
           (case processBody b env context task action postAction of
              (retError, effs) \<Rightarrow>
                (retError,
                 effs @ [Released (if retError = Some ErrTaskRetry then None else retError)]))"
  using assms by (simp add: processTransfer_def getDomainIDAndWorkflowExecution_def)

lemma processTransfer_not_acquired:
  assumes "getOrCreateWorkflowExecution env (DomainID task)
             \<lparr>WorkflowId = WorkflowID task, RunId = RunID task\<rparr> = Inl err"
  shows "processTransfer b env task action postAction = (Some err, [])"
  using assms by (simp add: processTransfer_def getDomainIDAndWorkflowExecution_def)

lemma processBody_closed:
  assumes "loadMutableStateForTransferTask env context task = Inr (Some ms)"
    and "\<not> IsWorkflowExecutionRunning ms"
  shows "processBody False env context task action postAction = (None, [])"
  using assms by (simp add: processBody_def)

lemma processBody_action:
  assumes "loadMutableStateForTransferTask env context task = Inr (Some ms)"
    and "b \<or> IsWorkflowExecutionRunning ms"
  shows "processBody b env context task action postAction =
           (case action ms of
              (Some err, effs, captured) \<Rightarrow> (Some err, effs)
            | (None, effs, captured) \<Rightarrow>
                (fst (postAction captured), effs @ [Released None] @ snd (postAction captured)))"
  using assms by (auto simp add: processBody_def split: option.splits prod.splits)

text \<open>
  Claim C7. When the mutable state of the task's workflow is loaded and reports that the
  workflow is not running, \<open>processTransfer\<close> with \<open>processTaskIfClosed = false\<close> returns
  nil after the deferred release alone: neither the action nor the post-action is
  called, whatever they are. This is the outcome of the activity, decision, cancel,
  signal and start-child handlers. With \<open>processTaskIfClosed = true\<close> the action is
  called on that mutable state, and that is how the close-execution handler runs.
\<close>

theorem processTransfer_closed_workflow:
  assumes cache: "getOrCreateWorkflowExecution env (DomainID task)
                    \<lparr>WorkflowId = WorkflowID task, RunId = RunID task\<rparr> = Inr context"
    and load: "loadMutableStateForTransferTask env context task = Inr (Some ms)"
    and closed: "\<not> IsWorkflowExecutionRunning ms"
  shows "processTransfer False env task action postAction = (None, [Released None])
       \<and> processActivityTask env task = (None, [Released None])
       \<and> processDecisionTask env task = (None, [Released None])
       \<and> processCancelExecution env task = (None, [Released None])
       \<and> processSignalExecution env task = (None, [Released None])
       \<and> processStartChildExecution env task = (None, [Released None])
       \<and> processTransfer True env task action postAction =
           (case action ms of
              (Some err, effs, captured) \<Rightarrow>
                (Some err, effs @ [Released (if err = ErrTaskRetry then None else Some err)])
            | (None, effs, captured) \<Rightarrow>
                (fst (postAction captured),
                 effs @ [Released None] @ snd (postAction captured)
                   @ [Released (if fst (postAction captured) = Some ErrTaskRetry then None
                                else fst (postAction captured))]))
       \<and> processCloseExecution env task =
           (case closeExecutionAction env task ms of
              (Some err, effs, u) \<Rightarrow>
                (Some err, effs @ [Released (if err = ErrTaskRetry then None else Some err)])
            | (None, effs, u) \<Rightarrow> (None, effs @ [Released None, Released None]))"
proof -
  have f: "processTransfer False env task a pa = (None, [Released None])"
    for a :: "mutableState \<Rightarrow> error option \<times> effect list \<times> 'x"
      and pa :: "'x \<Rightarrow> outcome"
    by (simp add: processTransfer_acquired [OF cache] processBody_closed [OF load closed])
  have t: "processTransfer True env task a pa =
           (case a ms of
              (Some err, effs, captured) \<Rightarrow>
                (Some err, effs @ [Released (if err = ErrTaskRetry then None else Some err)])
            | (None, effs, captured) \<Rightarrow>
                (fst (pa captured),
                 effs @ [Released None] @ snd (pa captured)
                   @ [Released (if fst (pa captured) = Some ErrTaskRetry then None
                                else fst (pa captured))]))"
    for a :: "mutableState \<Rightarrow> error option \<times> effect list \<times> 'x"
      and pa :: "'x \<Rightarrow> outcome"
    by (simp add: processTransfer_acquired [OF cache] processBody_action [OF load]
        split: prod.splits option.splits)
  show ?thesis
    by (simp add: f t processActivityTask_def processDecisionTask_def
        processCancelExecution_def processSignalExecution_def processStartChildExecution_def
        processCloseExecution_def postActionNoOp_def split: prod.splits option.splits)
qed

theorem processTransfer_closed_workflow_witness:
  "processSignalExecution
     (sampleEnv\<lparr>loadMutableStateForTransferTask :=
        (\<lambda>c t. Inr (Some (sampleMutableState\<lparr>IsWorkflowExecutionRunning := False\<rparr>)))\<rparr>)
     sampleTask = (None, [Released None])
   \<and> processCloseExecution
     (sampleEnv\<lparr>loadMutableStateForTransferTask :=
        (\<lambda>c t. Inr (Some (sampleMutableState\<lparr>IsWorkflowExecutionRunning := False\<rparr>)))\<rparr>)
     sampleTask
     = (None,
        [Published \<lparr>msgType = Some Closed, domainID = Some ''d1'', workflowID = Some ''wf1'',
           runID = Some ''runA'', workflowType = Some ''T'', startTime = Some 900,
           closeTime = Some 990, closeStatus = Some COMPLETED, historyLength = Some 12\<rparr>,
         RecordedClosed \<lparr>rwc_DomainUUID = ''d1'', rwc_Domain = ''sample-domain'',
           rwc_Execution = \<lparr>WorkflowId = ''wf1'', RunId = ''runA''\<rparr>,
           rwc_WorkflowTypeName = ''T'', rwc_StartTimestamp = 900, rwc_CloseTimestamp = 990,
           rwc_Status = COMPLETED, rwc_HistoryLength = 12, rwc_RetentionSeconds = 604800\<rparr>,
         Released None, Released None])"
proof -
  let ?ms = "sampleMutableState\<lparr>IsWorkflowExecutionRunning := False\<rparr>"
  let ?env = "sampleEnv\<lparr>loadMutableStateForTransferTask := (\<lambda>c t. Inr (Some ?ms))\<rparr>"
  have cache: "getOrCreateWorkflowExecution ?env (DomainID sampleTask)
                 \<lparr>WorkflowId = WorkflowID sampleTask, RunId = RunID sampleTask\<rparr>
               = Inr (WorkflowExecutionContext 1)"
    by (simp add: sampleEnv_def)
  have load: "loadMutableStateForTransferTask ?env (WorkflowExecutionContext 1) sampleTask
               = Inr (Some ?ms)"
    by simp
  have closed: "\<not> IsWorkflowExecutionRunning ?ms"
    by simp
  have act: "closeExecutionAction ?env sampleTask ?ms
     = (None,
        [Published \<lparr>msgType = Some Closed, domainID = Some ''d1'', workflowID = Some ''wf1'',
           runID = Some ''runA'', workflowType = Some ''T'', startTime = Some 900,
           closeTime = Some 990, closeStatus = Some COMPLETED, historyLength = Some 12\<rparr>,
         RecordedClosed \<lparr>rwc_DomainUUID = ''d1'', rwc_Domain = ''sample-domain'',
           rwc_Execution = \<lparr>WorkflowId = ''wf1'', RunId = ''runA''\<rparr>,
           rwc_WorkflowTypeName = ''T'', rwc_StartTimestamp = 900, rwc_CloseTimestamp = 990,
           rwc_Status = COMPLETED, rwc_HistoryLength = 12, rwc_RetentionSeconds = 604800\<rparr>],
        ())"
    by (simp add: closeExecutionAction_def closed_defs sample_history_defs
        retentionSecondsOf_def secondsInDay_def Let_def)
  note inst = processTransfer_closed_workflow [OF cache load closed,
      where action = "closeExecutionAction ?env sampleTask" and postAction = postActionNoOp]
  have a: "processSignalExecution ?env sampleTask = (None, [Released None])"
    using inst by (simp only:)
  have b: "processCloseExecution ?env sampleTask =
           (case closeExecutionAction ?env sampleTask ?ms of
              (Some err, effs, u) \<Rightarrow>
                (Some err, effs @ [Released (if err = ErrTaskRetry then None else Some err)])
            | (None, effs, u) \<Rightarrow> (None, effs @ [Released None, Released None]))"
    using inst by (simp only:)
  show ?thesis
    using a b by (simp only: act) simp
qed

text \<open>
  Claim C8, as amended. Once the workflow execution has been acquired,
  \<open>processTransfer\<close> ends every path with the deferred call of the release function,
  whose argument is nil exactly when the function returns nil or \<open>ErrTaskRetry\<close> and is
  the returned error otherwise. When the action returns nil there is one more call,
  \<open>release(nil)\<close>, before the post-action, whatever the post-action then returns.
\<close>

theorem processTransfer_release:
  assumes cache: "getOrCreateWorkflowExecution env (DomainID task)
                    \<lparr>WorkflowId = WorkflowID task, RunId = RunID task\<rparr> = Inr context"
  shows "snd (processTransfer b env task action postAction) \<noteq> []
       \<and> last (snd (processTransfer b env task action postAction))
           = Released (if fst (processTransfer b env task action postAction) = None
                          \<or> fst (processTransfer b env task action postAction) = Some ErrTaskRetry
                       then None
                       else fst (processTransfer b env task action postAction))
       \<and> (\<forall>ms effs captured.
             loadMutableStateForTransferTask env context task = Inr (Some ms)
             \<and> (b \<or> IsWorkflowExecutionRunning ms)
             \<and> action ms = (None, effs, captured)
           \<longrightarrow> processTransfer b env task action postAction
               = (fst (postAction captured),
                  effs @ [Released None] @ snd (postAction captured)
                    @ [Released (if fst (postAction captured) = None
                                    \<or> fst (postAction captured) = Some ErrTaskRetry
                                 then None
                                 else fst (postAction captured))]))"
proof (intro conjI allI impI)
  obtain retError effs where
    body: "processBody b env context task action postAction = (retError, effs)"
    by (cases "processBody b env context task action postAction")
  have pt: "processTransfer b env task action postAction
              = (retError,
                 effs @ [Released (if retError = Some ErrTaskRetry then None else retError)])"
    by (simp add: processTransfer_acquired [OF cache] body)
  show "snd (processTransfer b env task action postAction) \<noteq> []"
    by (simp add: pt)
  show "last (snd (processTransfer b env task action postAction))
           = Released (if fst (processTransfer b env task action postAction) = None
                          \<or> fst (processTransfer b env task action postAction) = Some ErrTaskRetry
                       then None
                       else fst (processTransfer b env task action postAction))"
    by (auto simp add: pt)
next
  fix ms effs captured
  assume a: "loadMutableStateForTransferTask env context task = Inr (Some ms)
             \<and> (b \<or> IsWorkflowExecutionRunning ms)
             \<and> action ms = (None, effs, captured)"
  then have "processBody b env context task action postAction
               = (fst (postAction captured), effs @ [Released None] @ snd (postAction captured))"
    by (simp add: processBody_action [where ms = ms])
  then show "processTransfer b env task action postAction
               = (fst (postAction captured),
                  effs @ [Released None] @ snd (postAction captured)
                    @ [Released (if fst (postAction captured) = None
                                    \<or> fst (postAction captured) = Some ErrTaskRetry
                                 then None
                                 else fst (postAction captured))])"
    by (auto simp add: processTransfer_acquired [OF cache])
qed

theorem processTransfer_release_witness:
  "processSignalExecution (sampleEnv\<lparr>GetCurrentTime := (\<lambda>cluster. 1005)\<rparr>) sampleTask
     = (Some ErrTaskRetry, [Released None])
   \<and> last (snd (processSignalExecution sampleEnv sampleTask)) = Released (Some ErrTaskDiscarded)
   \<and> processActivityTask sampleEnv (sampleTask\<lparr>TaskType := TransferTaskTypeActivityTask\<rparr>)
     = (None,
        [Released None,
         PushedActivity \<lparr>aat_DomainUUID = ''d1'', aat_SourceDomainUUID = ''d1'',
           aat_Execution = \<lparr>WorkflowId = ''wf1'', RunId = ''runA''\<rparr>, aat_TaskList = ''tl'',
           aat_ScheduleId = 7, aat_ScheduleToStartTimeoutSeconds = 30\<rparr>,
         Released None])"
proof -
  let ?early = "sampleEnv\<lparr>GetCurrentTime := (\<lambda>cluster. 1005)\<rparr>"
  let ?activity = "sampleTask\<lparr>TaskType := TransferTaskTypeActivityTask\<rparr>"
  have cache: "getOrCreateWorkflowExecution sampleEnv (DomainID sampleTask)
                 \<lparr>WorkflowId = WorkflowID sampleTask, RunId = RunID sampleTask\<rparr>
               = Inr (WorkflowExecutionContext 1)"
    by (simp add: sampleEnv_def)
  have cache': "getOrCreateWorkflowExecution ?early (DomainID sampleTask)
                 \<lparr>WorkflowId = WorkflowID sampleTask, RunId = RunID sampleTask\<rparr>
               = Inr (WorkflowExecutionContext 1)"
    by (simp add: sampleEnv_def)
  have cache'': "getOrCreateWorkflowExecution sampleEnv (DomainID ?activity)
                 \<lparr>WorkflowId = WorkflowID ?activity, RunId = RunID ?activity\<rparr>
               = Inr (WorkflowExecutionContext 1)"
    by (simp add: sampleEnv_def)
  show ?thesis
    using processTransfer_release [OF cache', where b = False
        and action = "signalExecutionAction ?early sampleTask" and postAction = postActionNoOp]
      processTransfer_release [OF cache, where b = False
        and action = "signalExecutionAction sampleEnv sampleTask" and postAction = postActionNoOp]
      processTransfer_release [OF cache'', where b = False
        and action = "activityAction sampleEnv ?activity"
        and postAction = "activityPostAction sampleEnv ?activity"]
    by (simp add: handler_defs sample_history_defs discardTask_def time_Sub_def
        maxDuration_def minDuration_def pushActivity_def MinInt32_def)
qed

text \<open>
  Claim C8 as stated fails: the release function is also given nil on a path that ends
  in an error other than \<open>ErrTaskRetry\<close>. The sample activity task is admitted, the
  handler calls \<open>release(nil)\<close> and pushes to matching, matching fails, and the deferred
  call passes the error.
\<close>

theorem release_nil_before_failed_push:
  "processActivityTask
     (sampleEnv\<lparr>AddActivityTask := (\<lambda>req. Some (OtherError ''matching unavailable''))\<rparr>)
     (sampleTask\<lparr>TaskType := TransferTaskTypeActivityTask\<rparr>)
     = (Some (OtherError ''matching unavailable''),
        [Released None,
         PushedActivity \<lparr>aat_DomainUUID = ''d1'', aat_SourceDomainUUID = ''d1'',
           aat_Execution = \<lparr>WorkflowId = ''wf1'', RunId = ''runA''\<rparr>, aat_TaskList = ''tl'',
           aat_ScheduleId = 7, aat_ScheduleToStartTimeoutSeconds = 30\<rparr>,
         Released (Some (OtherError ''matching unavailable''))])"
  by (simp add: handler_defs sample_history_defs time_Sub_def
      maxDuration_def minDuration_def pushActivity_def MinInt32_def)

subsection \<open>Version verification\<close>

text \<open>
  Claim C6. In each of the six handlers, when the version check of the task's version
  against the version of the info it concerns (the activity, decision, cancel, signal
  or child info; the last write version for close-execution) answers false with no
  error, the handler returns nil, and the only calls it makes are the two releases with
  nil: nothing is pushed to matching, nothing is recorded for visibility, and the
  outcome is neither \<open>ErrTaskRetry\<close> nor \<open>ErrTaskDiscarded\<close>.
\<close>

theorem version_mismatch_is_dropped:
  assumes cache: "getOrCreateWorkflowExecution env (DomainID task)
                    \<lparr>WorkflowId = WorkflowID task, RunId = RunID task\<rparr> = Inr context"
    and load: "loadMutableStateForTransferTask env context task = Inr (Some ms)"
  shows "(\<forall>info. IsWorkflowExecutionRunning ms
             \<and> GetActivityInfo ms (ScheduleID task) = Some info
             \<and> verifyTaskVersion env (DomainID task) (ai_Version info) (Version task) task
                 = (False, None)
           \<longrightarrow> processActivityTask env task = (None, [Released None, Released None]))
       \<and> (\<forall>info. IsWorkflowExecutionRunning ms
             \<and> GetPendingDecision ms (ScheduleID task) = Some info
             \<and> verifyTaskVersion env (DomainID task) (di_Version info) (Version task) task
                 = (False, None)
           \<longrightarrow> processDecisionTask env task = (None, [Released None, Released None]))
       \<and> (\<not> IsWorkflowExecutionRunning ms
             \<and> verifyTaskVersion env (DomainID task) (GetLastWriteVersion ms) (Version task) task
                 = (False, None)
           \<longrightarrow> processCloseExecution env task = (None, [Released None, Released None]))
       \<and> (\<forall>info. IsWorkflowExecutionRunning ms
             \<and> GetRequestCancelInfo ms (ScheduleID task) = Some info
             \<and> verifyTaskVersion env (DomainID task) (rci_Version info) (Version task) task
                 = (False, None)
           \<longrightarrow> processCancelExecution env task = (None, [Released None, Released None]))
       \<and> (\<forall>info. IsWorkflowExecutionRunning ms
             \<and> GetSignalInfo ms (ScheduleID task) = Some info
             \<and> verifyTaskVersion env (DomainID task) (si_Version info) (Version task) task
                 = (False, None)
           \<longrightarrow> processSignalExecution env task = (None, [Released None, Released None]))
       \<and> (\<forall>info. IsWorkflowExecutionRunning ms
             \<and> GetChildExecutionInfo ms (ScheduleID task) = Some info
             \<and> verifyTaskVersion env (DomainID task) (ci_Version info) (Version task) task
                 = (False, None)
           \<longrightarrow> processStartChildExecution env task = (None, [Released None, Released None]))"
proof (intro conjI allI impI)
  fix info
  assume "IsWorkflowExecutionRunning ms
             \<and> GetActivityInfo ms (ScheduleID task) = Some info
             \<and> verifyTaskVersion env (DomainID task) (ai_Version info) (Version task) task
                 = (False, None)"
  then show "processActivityTask env task = (None, [Released None, Released None])"
    by (simp add: processActivityTask_def processTransfer_acquired [OF cache]
        processBody_action [OF load] activityAction_def activityPostAction_def)
next
  fix info
  assume "IsWorkflowExecutionRunning ms
             \<and> GetPendingDecision ms (ScheduleID task) = Some info
             \<and> verifyTaskVersion env (DomainID task) (di_Version info) (Version task) task
                 = (False, None)"
  then show "processDecisionTask env task = (None, [Released None, Released None])"
    by (simp add: processDecisionTask_def processTransfer_acquired [OF cache]
        processBody_action [OF load] decisionAction_def decisionPostAction_def Let_def)
next
  assume "\<not> IsWorkflowExecutionRunning ms
             \<and> verifyTaskVersion env (DomainID task) (GetLastWriteVersion ms) (Version task) task
                 = (False, None)"
  then show "processCloseExecution env task = (None, [Released None, Released None])"
    by (simp add: processCloseExecution_def processTransfer_acquired [OF cache]
        processBody_action [OF load] closeExecutionAction_def postActionNoOp_def Let_def)
next
  fix info
  assume "IsWorkflowExecutionRunning ms
             \<and> GetRequestCancelInfo ms (ScheduleID task) = Some info
             \<and> verifyTaskVersion env (DomainID task) (rci_Version info) (Version task) task
                 = (False, None)"
  then show "processCancelExecution env task = (None, [Released None, Released None])"
    by (simp add: processCancelExecution_def processTransfer_acquired [OF cache]
        processBody_action [OF load] cancelExecutionAction_def postActionNoOp_def)
next
  fix info
  assume "IsWorkflowExecutionRunning ms
             \<and> GetSignalInfo ms (ScheduleID task) = Some info
             \<and> verifyTaskVersion env (DomainID task) (si_Version info) (Version task) task
                 = (False, None)"
  then show "processSignalExecution env task = (None, [Released None, Released None])"
    by (simp add: processSignalExecution_def processTransfer_acquired [OF cache]
        processBody_action [OF load] signalExecutionAction_def postActionNoOp_def)
next
  fix info
  assume "IsWorkflowExecutionRunning ms
             \<and> GetChildExecutionInfo ms (ScheduleID task) = Some info
             \<and> verifyTaskVersion env (DomainID task) (ci_Version info) (Version task) task
                 = (False, None)"
  then show "processStartChildExecution env task = (None, [Released None, Released None])"
    by (simp add: processStartChildExecution_def processTransfer_acquired [OF cache]
        processBody_action [OF load] startChildExecutionAction_def postActionNoOp_def)
qed

theorem version_mismatch_is_dropped_witness:
  "processActivityTask sampleEnv (sampleTask\<lparr>Version := 6\<rparr>)
     = (None, [Released None, Released None])
   \<and> processDecisionTask sampleEnv (sampleTask\<lparr>Version := 6\<rparr>)
     = (None, [Released None, Released None])
   \<and> processCancelExecution sampleEnv (sampleTask\<lparr>Version := 6\<rparr>)
     = (None, [Released None, Released None])
   \<and> processSignalExecution sampleEnv (sampleTask\<lparr>Version := 6\<rparr>)
     = (None, [Released None, Released None])
   \<and> processStartChildExecution sampleEnv (sampleTask\<lparr>Version := 6\<rparr>)
     = (None, [Released None, Released None])
   \<and> processCloseExecution
       (sampleEnv\<lparr>loadMutableStateForTransferTask :=
          (\<lambda>c t. Inr (Some (sampleMutableState\<lparr>IsWorkflowExecutionRunning := False\<rparr>)))\<rparr>)
       (sampleTask\<lparr>Version := 6\<rparr>)
     = (None, [Released None, Released None])"
proof -
  let ?task = "sampleTask\<lparr>Version := 6\<rparr>"
  let ?ms = "sampleMutableState\<lparr>IsWorkflowExecutionRunning := False\<rparr>"
  let ?env = "sampleEnv\<lparr>loadMutableStateForTransferTask := (\<lambda>c t. Inr (Some ?ms))\<rparr>"
  have cache: "getOrCreateWorkflowExecution sampleEnv (DomainID ?task)
                 \<lparr>WorkflowId = WorkflowID ?task, RunId = RunID ?task\<rparr>
               = Inr (WorkflowExecutionContext 1)"
    by (simp add: sampleEnv_def)
  have load: "loadMutableStateForTransferTask sampleEnv (WorkflowExecutionContext 1) ?task
               = Inr (Some sampleMutableState)"
    by (simp add: sampleEnv_def)
  have cache': "getOrCreateWorkflowExecution ?env (DomainID ?task)
                 \<lparr>WorkflowId = WorkflowID ?task, RunId = RunID ?task\<rparr>
               = Inr (WorkflowExecutionContext 1)"
    by (simp add: sampleEnv_def)
  have load': "loadMutableStateForTransferTask ?env (WorkflowExecutionContext 1) ?task
               = Inr (Some ?ms)"
    by simp
  show ?thesis
    using version_mismatch_is_dropped [OF cache load]
      version_mismatch_is_dropped [OF cache' load']
    by (simp add: sample_history_defs)
qed

subsection \<open>Retry and discard of tasks that wait for replication\<close>

text \<open>
  Claim C1, as amended. Let \<open>elapsed\<close> be the shard's current time for the cluster minus
  the task's visibility timestamp. \<open>discardTask\<close> answers true exactly when \<open>elapsed\<close>
  exceeds \<open>StandbyClusterDelay\<close> (once, not twice). For a running workflow whose cancel
  or signal info is pending, or whose child info is pending and not started, with the
  version check passed, the handler returns \<open>ErrTaskRetry\<close> (and releases with nil)
  whenever \<open>elapsed\<close> is at most \<open>StandbyClusterDelay\<close>, and returns \<open>ErrTaskDiscarded\<close>
  (and releases with that error) exactly when \<open>elapsed\<close> exceeds it.
\<close>

theorem pending_task_retry_or_discard:
  assumes cache: "getOrCreateWorkflowExecution env (DomainID task)
                    \<lparr>WorkflowId = WorkflowID task, RunId = RunID task\<rparr> = Inr context"
    and load: "loadMutableStateForTransferTask env context task = Inr (Some ms)"
    and running: "IsWorkflowExecutionRunning ms"
    and elapsed: "elapsed = time_Sub (GetCurrentTime env (clusterName env))
                              (VisibilityTimestamp task)"
  shows "discardTask env task = (elapsed > StandbyClusterDelay env)
       \<and> (\<forall>info. GetRequestCancelInfo ms (ScheduleID task) = Some info
             \<and> verifyTaskVersion env (DomainID task) (rci_Version info) (Version task) task
                 = (True, None)
           \<longrightarrow> processCancelExecution env task =
                 (if elapsed > StandbyClusterDelay env
                  then (Some ErrTaskDiscarded, [Released (Some ErrTaskDiscarded)])
                  else (Some ErrTaskRetry, [Released None])))
       \<and> (\<forall>info. GetSignalInfo ms (ScheduleID task) = Some info
             \<and> verifyTaskVersion env (DomainID task) (si_Version info) (Version task) task
                 = (True, None)
           \<longrightarrow> processSignalExecution env task =
                 (if elapsed > StandbyClusterDelay env
                  then (Some ErrTaskDiscarded, [Released (Some ErrTaskDiscarded)])
                  else (Some ErrTaskRetry, [Released None])))
       \<and> (\<forall>info. GetChildExecutionInfo ms (ScheduleID task) = Some info
             \<and> verifyTaskVersion env (DomainID task) (ci_Version info) (Version task) task
                 = (True, None)
             \<and> ci_StartedID info = EmptyEventID env
           \<longrightarrow> processStartChildExecution env task =
                 (if elapsed > StandbyClusterDelay env
                  then (Some ErrTaskDiscarded, [Released (Some ErrTaskDiscarded)])
                  else (Some ErrTaskRetry, [Released None])))"
proof (intro conjI allI impI)
  show d: "discardTask env task = (elapsed > StandbyClusterDelay env)"
    by (simp add: elapsed discardTask_iff)
  fix info
  assume "GetRequestCancelInfo ms (ScheduleID task) = Some info
             \<and> verifyTaskVersion env (DomainID task) (rci_Version info) (Version task) task
                 = (True, None)"
  then show "processCancelExecution env task =
                 (if elapsed > StandbyClusterDelay env
                  then (Some ErrTaskDiscarded, [Released (Some ErrTaskDiscarded)])
                  else (Some ErrTaskRetry, [Released None]))"
    using running
    by (simp add: processCancelExecution_def processTransfer_acquired [OF cache]
        processBody_action [OF load] cancelExecutionAction_def d)
next
  have d: "discardTask env task = (elapsed > StandbyClusterDelay env)"
    by (simp add: elapsed discardTask_iff)
  fix info
  assume "GetSignalInfo ms (ScheduleID task) = Some info
             \<and> verifyTaskVersion env (DomainID task) (si_Version info) (Version task) task
                 = (True, None)"
  then show "processSignalExecution env task =
                 (if elapsed > StandbyClusterDelay env
                  then (Some ErrTaskDiscarded, [Released (Some ErrTaskDiscarded)])
                  else (Some ErrTaskRetry, [Released None]))"
    using running
    by (simp add: processSignalExecution_def processTransfer_acquired [OF cache]
        processBody_action [OF load] signalExecutionAction_def d)
next
  have d: "discardTask env task = (elapsed > StandbyClusterDelay env)"
    by (simp add: elapsed discardTask_iff)
  fix info
  assume "GetChildExecutionInfo ms (ScheduleID task) = Some info
             \<and> verifyTaskVersion env (DomainID task) (ci_Version info) (Version task) task
                 = (True, None)
             \<and> ci_StartedID info = EmptyEventID env"
  then show "processStartChildExecution env task =
                 (if elapsed > StandbyClusterDelay env
                  then (Some ErrTaskDiscarded, [Released (Some ErrTaskDiscarded)])
                  else (Some ErrTaskRetry, [Released None]))"
    using running
    by (simp add: processStartChildExecution_def processTransfer_acquired [OF cache]
        processBody_action [OF load] startChildExecutionAction_def d)
qed

theorem pending_task_retry_or_discard_witness:
  "time_Sub (GetCurrentTime (sampleEnv\<lparr>GetCurrentTime := (\<lambda>cluster. 1010)\<rparr>) ''standby'')
      (VisibilityTimestamp sampleTask) = 10
   \<and> \<not> discardTask (sampleEnv\<lparr>GetCurrentTime := (\<lambda>cluster. 1010)\<rparr>) sampleTask
   \<and> processCancelExecution (sampleEnv\<lparr>GetCurrentTime := (\<lambda>cluster. 1010)\<rparr>) sampleTask
       = (Some ErrTaskRetry, [Released None])
   \<and> processSignalExecution (sampleEnv\<lparr>GetCurrentTime := (\<lambda>cluster. 1010)\<rparr>) sampleTask
       = (Some ErrTaskRetry, [Released None])
   \<and> processStartChildExecution (sampleEnv\<lparr>GetCurrentTime := (\<lambda>cluster. 1010)\<rparr>) sampleTask
       = (Some ErrTaskRetry, [Released None])
   \<and> time_Sub (GetCurrentTime (sampleEnv\<lparr>GetCurrentTime := (\<lambda>cluster. 1011)\<rparr>) ''standby'')
      (VisibilityTimestamp sampleTask) = 11
   \<and> discardTask (sampleEnv\<lparr>GetCurrentTime := (\<lambda>cluster. 1011)\<rparr>) sampleTask
   \<and> processCancelExecution (sampleEnv\<lparr>GetCurrentTime := (\<lambda>cluster. 1011)\<rparr>) sampleTask
       = (Some ErrTaskDiscarded, [Released (Some ErrTaskDiscarded)])
   \<and> processSignalExecution (sampleEnv\<lparr>GetCurrentTime := (\<lambda>cluster. 1011)\<rparr>) sampleTask
       = (Some ErrTaskDiscarded, [Released (Some ErrTaskDiscarded)])
   \<and> processStartChildExecution (sampleEnv\<lparr>GetCurrentTime := (\<lambda>cluster. 1011)\<rparr>) sampleTask
       = (Some ErrTaskDiscarded, [Released (Some ErrTaskDiscarded)])"
proof -
  have cache: "getOrCreateWorkflowExecution (sampleEnv\<lparr>GetCurrentTime := (\<lambda>cluster. n)\<rparr>)
                 (DomainID sampleTask)
                 \<lparr>WorkflowId = WorkflowID sampleTask, RunId = RunID sampleTask\<rparr>
               = Inr (WorkflowExecutionContext 1)" for n
    by (simp add: sampleEnv_def)
  have load: "loadMutableStateForTransferTask (sampleEnv\<lparr>GetCurrentTime := (\<lambda>cluster. n)\<rparr>)
                (WorkflowExecutionContext 1) sampleTask = Inr (Some sampleMutableState)" for n
    by (simp add: sampleEnv_def)
  have running: "IsWorkflowExecutionRunning sampleMutableState"
    by (simp add: sampleMutableState_def)
  show ?thesis
    using pending_task_retry_or_discard [OF cache load running refl, of 1010]
      pending_task_retry_or_discard [OF cache load running refl, of 1011]
    by (simp add: sample_history_defs time_Sub_def maxDuration_def minDuration_def
        discardTask_def)
qed

text \<open>
  Claim C1 as stated fails: with a delay of 10 and a pending signal task visible for 15,
  which is no more than twice the delay, \<open>discardTask\<close> answers true and the handler
  returns \<open>ErrTaskDiscarded\<close>.
\<close>

theorem discard_within_twice_the_delay:
  "time_Sub (GetCurrentTime sampleEnv (clusterName sampleEnv)) (VisibilityTimestamp sampleTask) = 15
   \<and> StandbyClusterDelay sampleEnv = 10
   \<and> GetSignalInfo sampleMutableState (ScheduleID sampleTask) = Some \<lparr>si_Version = 5\<rparr>
   \<and> discardTask sampleEnv sampleTask
   \<and> processSignalExecution sampleEnv sampleTask
       = (Some ErrTaskDiscarded, [Released (Some ErrTaskDiscarded)])"
  by (simp add: handler_defs sample_history_defs discardTask_def time_Sub_def
      maxDuration_def minDuration_def)


end
